theory Spec2Isabelle
  imports Main "HOL-Library.Word" "HOL-Library.List_Lexorder" "HOL-Library.Char_ord"
begin

section \<open>Data model\<close>

text \<open>
  Every failure in \<^verbatim>\<open>python/src/transforms.cpp\<close> is a C++ \<^verbatim>\<open>throw std::invalid_argument\<close>;
  the specification sorts the throw sites into named classes, and the model carries that
  class as the error value.  \<open>CastError\<close> is a failed nanobind cast
  (\<^verbatim>\<open>nb::cast<int64_t>\<close> of a Python integer that does not fit), \<open>OutOfBounds\<close> a read
  of a \<^verbatim>\<open>std::vector\<close> past its end, which the C++ leaves undefined.
\<close>

datatype error =
    InvalidArgumentError
  | TreeLeafError
  | StructureMismatchError
  | ReturnContractError
  | AxisError
  | ArityError
  | UnsupportedArgumentError
  | UnsupportedTypeError
  | CastError
  | OutOfBounds

text \<open>
  An \<^verbatim>\<open>mx::array\<close> is an opaque handle: the drivers read its identity (\<^verbatim>\<open>id()\<close>) and its
  rank (\<^verbatim>\<open>ndim()\<close>, the length of \<^verbatim>\<open>shape()\<close>) and nothing else.
\<close>

datatype array = Array (arr_id: nat) (shape: "nat list")

definition ndim :: "array \<Rightarrow> nat" where
  "ndim x = length (shape x)"

text \<open>
  A Python object as the drivers inspect it with \<^verbatim>\<open>nb::isinstance\<close>: an array, \<^verbatim>\<open>None\<close>,
  an \<^verbatim>\<open>int\<close> (unbounded), a \<^verbatim>\<open>float\<close> (kept as the 64 bits of its IEEE double, which is
  all the code reads of it), a \<^verbatim>\<open>str\<close>, a \<^verbatim>\<open>list\<close>, a \<^verbatim>\<open>tuple\<close>, a \<^verbatim>\<open>dict\<close> in
  insertion order with string keys (keyword names and parameter names), or any other
  object, told apart by a number.  The type of the array leaves is a parameter:
  \<open>array pyobj\<close> is a tree of tensors and constants, and \<open>unit pyobj\<close> is a structure
  descriptor, whose leaf \<open>PyArr ()\<close> is the placeholder standing where a tensor was.
\<close>

datatype 'a pyobj =
    PyArr 'a
  | PyNone
  | PyInt int
  | PyFloat "64 word"
  | PyStr string
  | PyOther nat
  | PyList "'a pyobj list"
  | PyTuple "'a pyobj list"
  | PyDict "(string \<times> 'a pyobj) list"

type_synonym tree = "array pyobj"
type_synonym descriptor = "unit pyobj"

section \<open>Structured-tree codec\<close>

text \<open>
  Modelled from the spec: \<^verbatim>\<open>tree_flatten\<close> of \<^verbatim>\<open>python/src/trees.cpp\<close>, which is not among
  the sources; \<^verbatim>\<open>transforms.cpp\<close> only calls it.  Section 4.1: a depth-first traversal in
  which sequences and mappings recurse, tensor leaves are appended to the output, and a
  non-tensor leaf is dropped unless \<open>strict\<close> is set, in which case it fails with
  \<open>TreeLeafError\<close>.
\<close>

fun tree_flatten :: "'a pyobj \<Rightarrow> bool \<Rightarrow> error + 'a list"
  and flatten_seq :: "'a pyobj list \<Rightarrow> bool \<Rightarrow> error + 'a list"
  and flatten_items :: "(string \<times> 'a pyobj) list \<Rightarrow> bool \<Rightarrow> error + 'a list" where
  "tree_flatten (PyArr x) strict = Inr [x]"
| "tree_flatten (PyList ts) strict = flatten_seq ts strict"
| "tree_flatten (PyTuple ts) strict = flatten_seq ts strict"
| "tree_flatten (PyDict kvs) strict = flatten_items kvs strict"
| "tree_flatten _ strict = (if strict then Inl TreeLeafError else Inr [])"
| "flatten_seq [] strict = Inr []"
| "flatten_seq (t # ts) strict =
     (case tree_flatten t strict of
        Inl e \<Rightarrow> Inl e
      | Inr xs \<Rightarrow>
          (case flatten_seq ts strict of Inl e \<Rightarrow> Inl e | Inr ys \<Rightarrow> Inr (xs @ ys)))"
| "flatten_items [] strict = Inr []"
| "flatten_items ((k, t) # kvs) strict =
     (case tree_flatten t strict of
        Inl e \<Rightarrow> Inl e
      | Inr xs \<Rightarrow>
          (case flatten_items kvs strict of Inl e \<Rightarrow> Inl e | Inr ys \<Rightarrow> Inr (xs @ ys)))"

text \<open>
  Modelled from the spec: \<^verbatim>\<open>tree_flatten_with_structure\<close> of \<^verbatim>\<open>python/src/trees.cpp\<close> (not
  among the sources).  Section 4.1: as \<open>flatten\<close>, but it also returns the structure
  descriptor, which section 3 defines as the tree with every tensor leaf replaced by a
  placeholder.
\<close>

definition tree_flatten_with_structure ::
  "'a pyobj \<Rightarrow> bool \<Rightarrow> error + ('a list \<times> descriptor)" where
  "tree_flatten_with_structure t strict =
     (case tree_flatten t strict of
        Inl e \<Rightarrow> Inl e
      | Inr xs \<Rightarrow> Inr (xs, map_pyobj (\<lambda>_. ()) t))"

text \<open>
  Modelled from the spec: the walk shared by \<^verbatim>\<open>tree_unflatten\<close> and
  \<^verbatim>\<open>tree_unflatten_from_structure\<close> of \<^verbatim>\<open>python/src/trees.cpp\<close> (not among the sources).
  Section 4.1: the template or descriptor is walked and tensors are pulled from the list
  in order, starting at the offset; as many tensors are consumed as the template has
  tensor leaves; a list that is too short fails with \<open>ArityError\<close>.  The walk returns the
  rebuilt tree and the offset after it.
\<close>

fun unflatten_from :: "'b pyobj \<Rightarrow> 'a list \<Rightarrow> nat \<Rightarrow> error + ('a pyobj \<times> nat)"
  and unflatten_seq ::
    "'b pyobj list \<Rightarrow> 'a list \<Rightarrow> nat \<Rightarrow> error + ('a pyobj list \<times> nat)"
  and unflatten_items ::
    "(string \<times> 'b pyobj) list \<Rightarrow> 'a list \<Rightarrow> nat
      \<Rightarrow> error + ((string \<times> 'a pyobj) list \<times> nat)" where
  "unflatten_from (PyArr _) vs i =
     (if i < length vs then Inr (PyArr (vs ! i), Suc i) else Inl ArityError)"
| "unflatten_from PyNone vs i = Inr (PyNone, i)"
| "unflatten_from (PyInt v) vs i = Inr (PyInt v, i)"
| "unflatten_from (PyFloat v) vs i = Inr (PyFloat v, i)"
| "unflatten_from (PyStr v) vs i = Inr (PyStr v, i)"
| "unflatten_from (PyOther v) vs i = Inr (PyOther v, i)"
| "unflatten_from (PyList ts) vs i =
     (case unflatten_seq ts vs i of Inl e \<Rightarrow> Inl e | Inr (us, j) \<Rightarrow> Inr (PyList us, j))"
| "unflatten_from (PyTuple ts) vs i =
     (case unflatten_seq ts vs i of Inl e \<Rightarrow> Inl e | Inr (us, j) \<Rightarrow> Inr (PyTuple us, j))"
| "unflatten_from (PyDict kvs) vs i =
     (case unflatten_items kvs vs i of Inl e \<Rightarrow> Inl e | Inr (us, j) \<Rightarrow> Inr (PyDict us, j))"
| "unflatten_seq [] vs i = Inr ([], i)"
| "unflatten_seq (t # ts) vs i =
     (case unflatten_from t vs i of
        Inl e \<Rightarrow> Inl e
      | Inr (u, j) \<Rightarrow>
          (case unflatten_seq ts vs j of
             Inl e \<Rightarrow> Inl e
           | Inr (us, k) \<Rightarrow> Inr (u # us, k)))"
| "unflatten_items [] vs i = Inr ([], i)"
| "unflatten_items ((key, t) # kvs) vs i =
     (case unflatten_from t vs i of
        Inl e \<Rightarrow> Inl e
      | Inr (u, j) \<Rightarrow>
          (case unflatten_items kvs vs j of
             Inl e \<Rightarrow> Inl e
           | Inr (us, k) \<Rightarrow> Inr ((key, u) # us, k)))"

text \<open>
  Modelled from the spec: \<^verbatim>\<open>tree_unflatten(tree, values, index)\<close> of
  \<^verbatim>\<open>python/src/trees.cpp\<close> (not among the sources): \<open>unflatten\<close> of section 4.1 with a
  tree of tensors as the template.
\<close>

definition tree_unflatten :: "'b pyobj \<Rightarrow> 'a list \<Rightarrow> nat \<Rightarrow> error + 'a pyobj" where
  "tree_unflatten t vs i = map_sum id fst (unflatten_from t vs i)"

text \<open>
  Modelled from the spec: \<^verbatim>\<open>tree_unflatten_from_structure(structure, values)\<close> of
  \<^verbatim>\<open>python/src/trees.cpp\<close> (not among the sources): \<open>unflatten\<close> of section 4.1 with a
  structure descriptor as the template.
\<close>

definition tree_unflatten_from_structure ::
  "descriptor \<Rightarrow> 'a list \<Rightarrow> nat \<Rightarrow> error + 'a pyobj" where
  "tree_unflatten_from_structure s vs i = map_sum id fst (unflatten_from s vs i)"

text \<open>
  Modelled from the spec: \<^verbatim>\<open>tree_visit_update\<close> of \<^verbatim>\<open>python/src/trees.cpp\<close> (not among the
  sources).  Section 4.1: like a visit of a single tree, but each tensor leaf is replaced
  in place by what the visitor returns for it, and neither a non-tensor leaf nor the
  shape of a container is touched.  The visitors in \<^verbatim>\<open>transforms.cpp\<close> capture a counter
  by reference, so the visitor of the model takes and returns a state; leaves are
  visited depth first, from left to right.
\<close>

fun tree_visit_update ::
    "('a \<Rightarrow> 's \<Rightarrow> error + ('a \<times> 's)) \<Rightarrow> 'a pyobj \<Rightarrow> 's \<Rightarrow> error + ('a pyobj \<times> 's)"
  and visit_update_seq ::
    "('a \<Rightarrow> 's \<Rightarrow> error + ('a \<times> 's)) \<Rightarrow> 'a pyobj list \<Rightarrow> 's
      \<Rightarrow> error + ('a pyobj list \<times> 's)"
  and visit_update_items ::
    "('a \<Rightarrow> 's \<Rightarrow> error + ('a \<times> 's)) \<Rightarrow> (string \<times> 'a pyobj) list \<Rightarrow> 's
      \<Rightarrow> error + ((string \<times> 'a pyobj) list \<times> 's)" where
  "tree_visit_update f (PyArr x) s =
     (case f x s of Inl e \<Rightarrow> Inl e | Inr (y, s') \<Rightarrow> Inr (PyArr y, s'))"
| "tree_visit_update f (PyList ts) s =
     (case visit_update_seq f ts s of
        Inl e \<Rightarrow> Inl e
      | Inr (us, s') \<Rightarrow> Inr (PyList us, s'))"
| "tree_visit_update f (PyTuple ts) s =
     (case visit_update_seq f ts s of
        Inl e \<Rightarrow> Inl e
      | Inr (us, s') \<Rightarrow> Inr (PyTuple us, s'))"
| "tree_visit_update f (PyDict kvs) s =
     (case visit_update_items f kvs s of
        Inl e \<Rightarrow> Inl e
      | Inr (us, s') \<Rightarrow> Inr (PyDict us, s'))"
| "tree_visit_update f t s = Inr (t, s)"
| "visit_update_seq f [] s = Inr ([], s)"
| "visit_update_seq f (t # ts) s =
     (case tree_visit_update f t s of
        Inl e \<Rightarrow> Inl e
      | Inr (u, s') \<Rightarrow>
          (case visit_update_seq f ts s' of
             Inl e \<Rightarrow> Inl e
           | Inr (us, s'') \<Rightarrow> Inr (u # us, s'')))"
| "visit_update_items f [] s = Inr ([], s)"
| "visit_update_items f ((key, t) # kvs) s =
     (case tree_visit_update f t s of
        Inl e \<Rightarrow> Inl e
      | Inr (u, s') \<Rightarrow>
          (case visit_update_items f kvs s' of
             Inl e \<Rightarrow> Inl e
           | Inr (us, s'') \<Rightarrow> Inr ((key, u) # us, s'')))"

text \<open>
  Modelled from the spec: \<^verbatim>\<open>tree_fill(tree, values)\<close> of \<^verbatim>\<open>python/src/trees.cpp\<close> (not
  among the sources).  Section 4.4, step 3: the argument tree is rebuilt from the traced
  tensors through the codec, each tensor leaf taking the next tensor of the list.
\<close>

definition tree_fill :: "tree \<Rightarrow> array list \<Rightarrow> error + tree" where
  "tree_fill t vs = tree_unflatten t vs 0"

section \<open>Callables and vectors\<close>

text \<open>
  A Python callable is invoked with positional and keyword arguments and either raises
  or returns a value.  A call can also write into the containers it was handed, and
  \<^verbatim>\<open>py_value_and_grad\<close> looks at its argument tree again after the call: \<open>tree_after\<close> is
  the list \<^verbatim>\<open>[args, kwargs]\<close> as the caller finds it when the call has returned.
\<close>

record outcome =
  returned :: tree
  tree_after :: tree

type_synonym callable = "tree list \<Rightarrow> (string \<times> tree) list \<Rightarrow> error + outcome"

text \<open>\<^verbatim>\<open>fun(*targs, **tkwargs)\<close>: the tuple and the dictionary are unpacked.\<close>

definition star_call :: "callable \<Rightarrow> tree \<Rightarrow> tree \<Rightarrow> error + outcome" where
  "star_call f targs tkwargs =
     (case (targs, tkwargs) of
        (PyTuple as, PyDict ks) \<Rightarrow> f as ks
      | _ \<Rightarrow> Inl CastError)"

text \<open>
  \<^verbatim>\<open>v[i]\<close> on a \<^verbatim>\<open>std::vector\<close> or an \<^verbatim>\<open>nb::args\<close>: past the end the C++ is undefined,
  and the model says so.
\<close>

definition at :: "'a list \<Rightarrow> nat \<Rightarrow> error + 'a" where
  "at xs i = (if i < length xs then Inr (xs ! i) else Inl OutOfBounds)"

section \<open>Argument selection\<close>

datatype int_or_vec = AnInt int | AVec "int list"

datatype str_or_set = AStr string | ASet "string list"

text \<open>
  \<^verbatim>\<open>validate_argnums_argnames\<close> (lines 39-66).  The \<^verbatim>\<open>std::unordered_set\<close> of names is
  the list of its elements in the order its iteration gives them.
\<close>

definition validate_argnums_argnames ::
  "int_or_vec option \<Rightarrow> str_or_set \<Rightarrow> int list \<times> string list" where
  "validate_argnums_argnames nums names =
     (let setnames = (case names of AStr pv \<Rightarrow> [pv] | ASet ns \<Rightarrow> ns) in
      case nums of
        None \<Rightarrow> (if setnames = [] then ([0], setnames) else ([], setnames))
      | Some (AnInt pv) \<Rightarrow> ([pv], setnames)
      | Some (AVec vecnums) \<Rightarrow> (vecnums, setnames))"

text \<open>The inner loop of lines 88-95: is some element equal to the one before it?\<close>

fun adjacent_equal :: "int list \<Rightarrow> bool" where
  "adjacent_equal (x # y # ys) = (y = x \<or> adjacent_equal (y # ys))"
| "adjacent_equal _ = False"

text \<open>
  The loop of lines 79-96 runs its body once for every element of \<^verbatim>\<open>argnums\<close>; the
  body sorts the vector, rejects a negative first element and rejects two equal
  neighbours.
\<close>

fun sanitize_argnums :: "nat \<Rightarrow> int list \<Rightarrow> error + int list" where
  "sanitize_argnums 0 nums = Inr nums"
| "sanitize_argnums (Suc n) nums =
     (let sorted_nums = sort nums in
      if hd sorted_nums < 0 then Inl InvalidArgumentError
      else if adjacent_equal sorted_nums then Inl InvalidArgumentError
      else sanitize_argnums n sorted_nums)"

text \<open>What the lambda returned by \<^verbatim>\<open>py_value_and_grad\<close> captures.\<close>

record grad_wrapper =
  argnums :: "int list"
  argnames :: "string list"
  scalar_func_only :: bool

text \<open>\<^verbatim>\<open>py_value_and_grad\<close> up to its \<^verbatim>\<open>return\<close> (lines 68-98): the checks made at wrap time.\<close>

definition py_value_and_grad :: "int list \<Rightarrow> string list \<Rightarrow> bool \<Rightarrow> error + grad_wrapper" where
  "py_value_and_grad nums names scalar_only =
     (if length nums = 0 \<and> length names = 0 then Inl InvalidArgumentError
      else case sanitize_argnums (length nums) nums of
             Inl e \<Rightarrow> Inl e
           | Inr sorted_nums \<Rightarrow>
               Inr \<lparr>argnums = sorted_nums, argnames = names, scalar_func_only = scalar_only\<rparr>)"

text \<open>
  \<^verbatim>\<open>argnums.back() >= args.size()\<close> compares an \<^verbatim>\<open>int\<close> with a \<^verbatim>\<open>size_t\<close>: the \<^verbatim>\<open>int\<close> is
  converted to the unsigned 64-bit type first.
\<close>

definition to_size_t :: "int \<Rightarrow> nat" where
  "to_size_t x = nat (x mod 2 ^ 64)"

definition contains :: "(string \<times> 'a) list \<Rightarrow> string \<Rightarrow> bool" where
  "contains kwargs key = (key \<in> fst ` set kwargs)"

fun check_argnames :: "string list \<Rightarrow> (string \<times> tree) list \<Rightarrow> error + unit" where
  "check_argnames [] kwargs = Inr ()"
| "check_argnames (key # keys) kwargs =
     (if \<not> contains kwargs key then Inl InvalidArgumentError
      else check_argnames keys kwargs)"

text \<open>The checks at the head of the returned lambda (lines 100-122), made at every call.\<close>

definition sanitize_input ::
  "grad_wrapper \<Rightarrow> tree list \<Rightarrow> (string \<times> tree) list \<Rightarrow> error + unit" where
  "sanitize_input w args kwargs =
     (if length (argnums w) > 0 \<and> to_size_t (last (argnums w)) \<ge> length args
      then Inl InvalidArgumentError
      else check_argnames (argnames w) kwargs)"

section \<open>Gradient transform driver\<close>

text \<open>
  The three vectors that lines 124-158 build: the flat tensors of the whole call, the
  number of tensors of each selected argument (turned into offsets by the partial sum)
  and the positions, among the flat tensors, of those to differentiate.
\<close>

record collected =
  arrays :: "array list"
  counts :: "nat list"
  gradient_indices :: "nat list"

text \<open>
  Lines 132-139 and 148-154: the indices \<^verbatim>\<open>arrays.size()\<close>, \<^verbatim>\<open>arrays.size() + 1\<close>, ... of
  the tensors about to be appended are added by \<^verbatim>\<open>std::iota\<close>, and their number is
  pushed on \<^verbatim>\<open>counts\<close>.
\<close>

definition add_gradient :: "array list \<Rightarrow> collected \<Rightarrow> collected" where
  "add_gradient flat c =
     c\<lparr>gradient_indices :=
          gradient_indices c @ [length (arrays c) ..< length (arrays c) + length flat],
        counts := counts c @ [length flat]\<rparr>"

definition add_arrays :: "array list \<Rightarrow> collected \<Rightarrow> collected" where
  "add_arrays flat c = c\<lparr>arrays := arrays c @ flat\<rparr>"

text \<open>The loop over the positional arguments (lines 128-142), with its counters \<open>i\<close> and \<open>j\<close>.\<close>

fun collect_args ::
  "int list \<Rightarrow> tree list \<Rightarrow> nat \<Rightarrow> nat \<Rightarrow> collected \<Rightarrow> error + collected" where
  "collect_args nums [] i j c = Inr c"
| "collect_args nums (argi # rest) i j c =
     (let needs_grad = (j < length nums \<and> nums ! j = int i) in
      case tree_flatten argi needs_grad of
        Inl e \<Rightarrow> Inl e
      | Inr argsi \<Rightarrow>
          if needs_grad
          then collect_args nums rest (Suc i) (Suc j) (add_arrays argsi (add_gradient argsi c))
          else collect_args nums rest (Suc i) j (add_arrays argsi c))"

text \<open>The loop over the keyword arguments (lines 143-157).\<close>

fun collect_kwargs ::
  "string list \<Rightarrow> (string \<times> tree) list \<Rightarrow> collected \<Rightarrow> error + collected" where
  "collect_kwargs names [] c = Inr c"
| "collect_kwargs names ((key, v) # rest) c =
     (let needs_grad = (key \<in> set names) in
      case tree_flatten v needs_grad of
        Inl e \<Rightarrow> Inl e
      | Inr argsk \<Rightarrow>
          if needs_grad
          then collect_kwargs names rest (add_arrays argsk (add_gradient argsk c))
          else collect_kwargs names rest (add_arrays argsk c))"

text \<open>\<^verbatim>\<open>std::partial_sum\<close>, with the sum so far as an accumulator.\<close>

fun partial_sum :: "nat \<Rightarrow> nat list \<Rightarrow> nat list" where
  "partial_sum acc [] = []"
| "partial_sum acc (x # xs) = (acc + x) # partial_sum (acc + x) xs"

definition collect_arrays ::
  "grad_wrapper \<Rightarrow> tree list \<Rightarrow> (string \<times> tree) list \<Rightarrow> error + collected" where
  "collect_arrays w args kwargs =
     (case collect_args (argnums w) args 0 0
             \<lparr>arrays = [], counts = [0], gradient_indices = []\<rparr> of
        Inl e \<Rightarrow> Inl e
      | Inr c \<Rightarrow>
          (case collect_kwargs (argnames w) kwargs c of
             Inl e \<Rightarrow> Inl e
           | Inr c' \<Rightarrow> Inr (c'\<lparr>counts := partial_sum 0 (counts c')\<rparr>)))"

text \<open>
  The visitor of lines 182-189.  \<open>a\<close> are the tracers the closure was called with,
  \<open>originals\<close> the vector \<^verbatim>\<open>arrays\<close> of the enclosing call, \<open>index\<close> the counter captured
  by reference: it moves on only when the leaf is the tracer \<^verbatim>\<open>a[index]\<close>.
\<close>

definition replace_tracer ::
  "array list \<Rightarrow> array list \<Rightarrow> array \<Rightarrow> nat \<Rightarrow> error + (array \<times> nat)" where
  "replace_tracer a originals replace_arr index =
     (case at a index of
        Inl e \<Rightarrow> Inl e
      | Inr tracer \<Rightarrow>
          if arr_id replace_arr = arr_id tracer
          then (case at originals index of
                  Inl e \<Rightarrow> Inl e
                | Inr orig \<Rightarrow> Inr (orig, Suc index))
          else Inr (replace_arr, index))"

text \<open>Lines 179-189: \<^verbatim>\<open>int index = 0; tree_visit_update(tree, ...)\<close>.\<close>

definition restore_originals :: "array list \<Rightarrow> array list \<Rightarrow> tree \<Rightarrow> error + tree" where
  "restore_originals a originals t =
     map_sum id fst (tree_visit_update (replace_tracer a originals) t 0)"

definition is_array :: "'a pyobj \<Rightarrow> bool" where
  "is_array t = (case t of PyArr _ \<Rightarrow> True | _ \<Rightarrow> False)"

definition is_tuple :: "'a pyobj \<Rightarrow> bool" where
  "is_tuple t = (case t of PyTuple _ \<Rightarrow> True | _ \<Rightarrow> False)"

definition tuple_items :: "'a pyobj \<Rightarrow> 'a pyobj list" where
  "tuple_items t = (case t of PyTuple ts \<Rightarrow> ts | _ \<Rightarrow> [])"

text \<open>Lines 191-230: the checks on what the Python function returned.\<close>

definition validate_return :: "bool \<Rightarrow> tree \<Rightarrow> error + unit" where
  "validate_return scalar_only value_out =
     (if \<not> is_array value_out then
        if scalar_only then Inl ReturnContractError
        else if \<not> is_tuple value_out then Inl ReturnContractError
        else let ret = tuple_items value_out in
          if length ret = 0 then Inl ReturnContractError
          else if \<not> is_array (ret ! 0) then Inl ReturnContractError
          else Inr ()
      else Inr ())"

text \<open>
  What one run of the closure of lines 164-233 leaves behind: the flat tensors it
  returns to the primitive, the Python value it stored in \<^verbatim>\<open>py_value_out\<close>, and the
  argument tree after the tracers were replaced.
\<close>

record traced =
  flat_outputs :: "array list"
  py_value_out :: tree
  restored :: tree

text \<open>
  Lines 171-177: the list \<^verbatim>\<open>[args, kwargs]\<close> is filled with the tracers \<open>a\<close> and the
  Python function is called on its two elements.
\<close>

definition traced_call ::
  "callable \<Rightarrow> tree list \<Rightarrow> (string \<times> tree) list \<Rightarrow> array list \<Rightarrow> error + outcome" where
  "traced_call f args kwargs a =
     (case tree_fill (PyList [PyTuple args, PyDict kwargs]) a of
        Inl e \<Rightarrow> Inl e
      | Inr filled \<Rightarrow>
          (case filled of
             PyList [targs, tkwargs] \<Rightarrow> star_call f targs tkwargs
           | _ \<Rightarrow> Inl CastError))"

definition inner_fun ::
  "callable \<Rightarrow> bool \<Rightarrow> array list \<Rightarrow> tree list \<Rightarrow> (string \<times> tree) list \<Rightarrow> array list
     \<Rightarrow> error + traced" where
  "inner_fun f scalar_only originals args kwargs a =
     (case traced_call f args kwargs a of
        Inl e \<Rightarrow> Inl e
      | Inr out \<Rightarrow>
     (case restore_originals a originals (tree_after out) of
        Inl e \<Rightarrow> Inl e
      | Inr t \<Rightarrow>
     (case validate_return scalar_only (returned out) of
        Inl e \<Rightarrow> Inl e
      | Inr _ \<Rightarrow>
     (case tree_flatten (returned out) False of
        Inl e \<Rightarrow> Inl e
      | Inr flat \<Rightarrow>
          Inr \<lparr>flat_outputs = flat, py_value_out = returned out, restored = t\<rparr>))))"

text \<open>
  Modelled from the spec: the primitive \<^verbatim>\<open>mx::value_and_grad(fn, grad_indices)\<close> of the core
  library, an external collaborator (sections 1 and 6) whose code is not among the
  sources.  It runs the closure once, on placeholders standing for the flat inputs
  (\<open>trace_inputs\<close>, the tracers of the glossary), and from the flat outputs of the closure
  it computes the values and the gradients, or fails (\<open>finish\<close>).  Both are parameters.
\<close>

record grad_engine =
  trace_inputs :: "array list \<Rightarrow> array list"
  finish :: "array list \<Rightarrow> nat list \<Rightarrow> array list \<Rightarrow> error + (array list \<times> array list)"

text \<open>The loop of lines 259-261 over \<^verbatim>\<open>argnums\<close>, with its counter \<open>i\<close>.\<close>

fun positional_loop ::
  "tree list \<Rightarrow> array list \<Rightarrow> nat list \<Rightarrow> nat \<Rightarrow> int list \<Rightarrow> error + tree list" where
  "positional_loop args gradients cnts i [] = Inr []"
| "positional_loop args gradients cnts i (n # ns) =
     (case at args (nat n) of Inl e \<Rightarrow> Inl e | Inr arg \<Rightarrow>
      case at cnts i of Inl e \<Rightarrow> Inl e | Inr off \<Rightarrow>
      case tree_unflatten arg gradients off of Inl e \<Rightarrow> Inl e | Inr g \<Rightarrow>
      case positional_loop args gradients cnts (Suc i) ns of
        Inl e \<Rightarrow> Inl e
      | Inr gs \<Rightarrow> Inr (g # gs))"

text \<open>Lines 254-265.\<close>

definition positional_grads ::
  "int list \<Rightarrow> tree list \<Rightarrow> array list \<Rightarrow> nat list \<Rightarrow> error + tree" where
  "positional_grads nums args gradients cnts =
     (if length nums = 1 then
        (case at args (nat (nums ! 0)) of Inl e \<Rightarrow> Inl e | Inr arg \<Rightarrow>
         case at cnts 0 of Inl e \<Rightarrow> Inl e | Inr off \<Rightarrow>
         tree_unflatten arg gradients off)
      else if length nums > 1 then
        map_sum id PyTuple (positional_loop args gradients cnts 0 nums)
      else Inr PyNone)"

text \<open>\<^verbatim>\<open>d[k] = v\<close> on a dictionary kept in insertion order.\<close>

definition dict_set :: "string \<Rightarrow> 'v \<Rightarrow> (string \<times> 'v) list \<Rightarrow> (string \<times> 'v) list" where
  "dict_set k v d =
     (if contains d k then map (\<lambda>(k', v'). if k' = k then (k', v) else (k', v')) d
      else d @ [(k, v)])"

text \<open>
  The loop of lines 273-279 over \<^verbatim>\<open>kwargs\<close>: \<open>n\<close> is \<^verbatim>\<open>argnums.size()\<close>, \<open>i\<close> the counter,
  \<open>grads\<close> the dictionary built so far.
\<close>

fun keyword_loop ::
  "string list \<Rightarrow> array list \<Rightarrow> nat list \<Rightarrow> nat \<Rightarrow> nat \<Rightarrow> (string \<times> tree) list
     \<Rightarrow> (string \<times> tree) list \<Rightarrow> error + (string \<times> tree) list" where
  "keyword_loop names gradients cnts n i [] grads = Inr grads"
| "keyword_loop names gradients cnts n i ((k, v) # rest) grads =
     (if k \<in> set names then
        (case at cnts (i + n) of Inl e \<Rightarrow> Inl e | Inr off \<Rightarrow>
         case tree_unflatten v gradients off of Inl e \<Rightarrow> Inl e | Inr g \<Rightarrow>
         keyword_loop names gradients cnts n (Suc i) rest (dict_set k g grads))
      else keyword_loop names gradients cnts n i rest grads)"

text \<open>Lines 250-283: the gradients are put back in their containers.\<close>

definition py_grads ::
  "grad_wrapper \<Rightarrow> tree list \<Rightarrow> (string \<times> tree) list \<Rightarrow> array list \<Rightarrow> nat list
     \<Rightarrow> error + tree" where
  "py_grads w args kwargs gradients cnts =
     (case positional_grads (argnums w) args gradients cnts of
        Inl e \<Rightarrow> Inl e
      | Inr positional \<Rightarrow>
          if length (argnames w) = 0 then Inr positional
          else (case keyword_loop (argnames w) gradients cnts (length (argnums w)) 0
                       kwargs [] of
                  Inl e \<Rightarrow> Inl e
                | Inr keyword \<Rightarrow> Inr (PyTuple [positional, PyDict keyword])))"

text \<open>
  What a call of the wrapper yields: the pair it returns and, since the closure writes
  into the argument tree, that tree as the closure left it.
\<close>

record grad_result =
  return_value :: tree
  grads :: tree
  args_after :: tree

text \<open>
  The closure puts the very objects \<^verbatim>\<open>args\<close> and \<^verbatim>\<open>kwargs\<close> in its list \<^verbatim>\<open>tree\<close> (lines
  171-173), so what the wrapper reads from \<^verbatim>\<open>args\<close> and \<^verbatim>\<open>kwargs\<close> once the primitive has
  returned (lines 256, 260 and 273-277) is what the call of \<^verbatim>\<open>fun\<close> and the replacement
  of the tracers left in them: the two elements of the tree \<open>restored\<close>.
\<close>

definition split_bundle :: "tree \<Rightarrow> error + (tree list \<times> (string \<times> tree) list)" where
  "split_bundle t =
     (case t of
        PyList [PyTuple as, PyDict ks] \<Rightarrow> Inr (as, ks)
      | _ \<Rightarrow> Inl CastError)"

text \<open>The lambda returned by \<^verbatim>\<open>py_value_and_grad\<close> (lines 98-288).\<close>

definition value_and_grad_call ::
  "grad_engine \<Rightarrow> callable \<Rightarrow> grad_wrapper \<Rightarrow> tree list \<Rightarrow> (string \<times> tree) list
     \<Rightarrow> error + grad_result" where
  "value_and_grad_call prim f w args kwargs =
     (case sanitize_input w args kwargs of Inl e \<Rightarrow> Inl e | Inr _ \<Rightarrow>
      case collect_arrays w args kwargs of Inl e \<Rightarrow> Inl e | Inr c \<Rightarrow>
      case inner_fun f (scalar_func_only w) (arrays c) args kwargs
             (trace_inputs prim (arrays c)) of
        Inl e \<Rightarrow> Inl e
      | Inr tr \<Rightarrow>
      case finish prim (flat_outputs tr) (gradient_indices c) (arrays c) of
        Inl e \<Rightarrow> Inl e
      | Inr (value, gradients) \<Rightarrow>
      case split_bundle (restored tr) of Inl e \<Rightarrow> Inl e | Inr (args_left, kwargs_left) \<Rightarrow>
      case py_grads w args_left kwargs_left gradients (counts c) of
        Inl e \<Rightarrow> Inl e
      | Inr g \<Rightarrow>
      case tree_unflatten (py_value_out tr) value 0 of
        Inl e \<Rightarrow> Inl e
      | Inr rv \<Rightarrow> Inr \<lparr>return_value = rv, grads = g, args_after = restored tr\<rparr>)"

section \<open>Vectorization transform driver\<close>

text \<open>
  \<^verbatim>\<open>nb::cast<int>\<close> of a Python integer fails outside the range of a 32-bit \<^verbatim>\<open>int\<close>.
\<close>

definition cast_int :: "int \<Rightarrow> error + int" where
  "cast_int v = (if - (2 ^ 31) \<le> v \<and> v < 2 ^ 31 then Inr v else Inl CastError)"

text \<open>
  \<^verbatim>\<open>axis += x.ndim() + output_axes\<close> adds in the unsigned 64-bit type and stores the
  result in an \<^verbatim>\<open>int\<close>: the sum is taken modulo \<open>2 ^ 32\<close> and read as a signed value.
\<close>

definition to_int :: "int \<Rightarrow> int" where
  "to_int v = (v + 2 ^ 31) mod 2 ^ 32 - 2 ^ 31"

text \<open>
  Lines 309-321, and again lines 326-338: the axis is read, a negative one is shifted by
  the rank (plus one for output axes), and an axis outside the range is rejected.  In
  \<^verbatim>\<open>axis >= (x.ndim() + output_axes)\<close> the axis is not negative, so the unsigned
  comparison is the comparison of the numbers.
\<close>

definition resolve_axis :: "bool \<Rightarrow> array \<Rightarrow> int \<Rightarrow> error + int" where
  "resolve_axis output_axes x v =
     (case cast_int v of
        Inl e \<Rightarrow> Inl e
      | Inr axis0 \<Rightarrow>
          (let axis = (if axis0 < 0 then to_int (axis0 + int (ndim x + of_bool output_axes))
                       else axis0)
           in if axis < 0 \<or> nat axis \<ge> ndim x + of_bool output_axes then Inl AxisError
              else Inr axis))"

record axes_state =
  flat_axes :: "int list"
  encountered_tuple :: bool

text \<open>
  The visitor that \<^verbatim>\<open>axes_to_flat_tree\<close> hands to \<^verbatim>\<open>tree_visit\<close> (lines 303-352), applied
  to a leaf of the tree and the leaf of the axis tree that goes with it.
\<close>

definition axes_visitor :: "bool \<Rightarrow> tree \<Rightarrow> tree \<Rightarrow> axes_state \<Rightarrow> error + axes_state" where
  "axes_visitor output_axes input0 input1 s =
     (case input0 of
        PyArr x \<Rightarrow>
          (case input1 of
             PyNone \<Rightarrow> Inr (s\<lparr>flat_axes := flat_axes s @ [- 1]\<rparr>)
           | PyInt v \<Rightarrow>
               (case resolve_axis output_axes x v of
                  Inl e \<Rightarrow> Inl e
                | Inr axis \<Rightarrow> Inr (s\<lparr>flat_axes := flat_axes s @ [axis]\<rparr>))
           | PyTuple l \<Rightarrow>
               (if length l = 1 then
                  (case l ! 0 of
                     PyInt v \<Rightarrow>
                       (case resolve_axis output_axes x v of
                          Inl e \<Rightarrow> Inl e
                        | Inr axis \<Rightarrow>
                            Inr (s\<lparr>flat_axes := flat_axes s @ [axis],
                                   encountered_tuple := True\<rparr>))
                   | PyNone \<Rightarrow>
                       Inr (s\<lparr>flat_axes := flat_axes s @ [- 1], encountered_tuple := True\<rparr>)
                   | _ \<Rightarrow> Inl AxisError)
                else Inl AxisError)
           | _ \<Rightarrow> Inl AxisError)
      | _ \<Rightarrow> Inl AxisError)"

section \<open>Compilation cache driver\<close>

text \<open>
  The two vectors of \<^verbatim>\<open>PyCompiledFun::call_impl\<close> that \<^verbatim>\<open>recurse\<close> captures by reference:
  the flat tensors and the compilation constants.
\<close>

record 'a sig_state =
  inputs :: "'a list"
  constants :: "64 word list"

definition array_identifier :: "64 word" where
  "array_identifier = 18446744073709551557"

definition list_identifier :: "64 word" where
  "list_identifier = 18446744073709551533"

definition dict_identifier :: "64 word" where
  "dict_identifier = 18446744073709551521"

definition push_back :: "64 word \<Rightarrow> 'a sig_state \<Rightarrow> 'a sig_state" where
  "push_back c s = s\<lparr>constants := constants s @ [c]\<rparr>"

text \<open>
  \<^verbatim>\<open>recurse\<close> (lines 445-485), in the order of its \<^verbatim>\<open>isinstance\<close> tests.  \<open>h\<close> is Python's
  \<^verbatim>\<open>__hash__\<close> on strings, which the interpreter supplies: a parameter.  An integer is
  cast to \<^verbatim>\<open>int64_t\<close>, which fails outside its range, and pushed as the unsigned value
  with the same bits; a float is pushed as its bits.
\<close>

fun recurse :: "(string \<Rightarrow> 64 word) \<Rightarrow> 'a pyobj \<Rightarrow> 'a sig_state \<Rightarrow> error + 'a sig_state"
  and recurse_seq ::
    "(string \<Rightarrow> 64 word) \<Rightarrow> 'a pyobj list \<Rightarrow> 'a sig_state \<Rightarrow> error + 'a sig_state"
  and recurse_items ::
    "(string \<Rightarrow> 64 word) \<Rightarrow> (string \<times> 'a pyobj) list \<Rightarrow> 'a sig_state
      \<Rightarrow> error + 'a sig_state" where
  "recurse h (PyList l) s = recurse_seq h l (push_back list_identifier s)"
| "recurse h (PyTuple l) s = recurse_seq h l (push_back list_identifier s)"
| "recurse h (PyDict d) s = recurse_items h d (push_back dict_identifier s)"
| "recurse h (PyArr x) s =
     Inr (push_back array_identifier (s\<lparr>inputs := inputs s @ [x]\<rparr>))"
| "recurse h (PyStr v) s = Inr (push_back (h v) s)"
| "recurse h (PyInt v) s =
     (if - (2 ^ 63) \<le> v \<and> v < 2 ^ 63 then Inr (push_back (word_of_int v) s)
      else Inl CastError)"
| "recurse h (PyFloat r) s = Inr (push_back r s)"
| "recurse h _ s = Inl UnsupportedTypeError"
| "recurse_seq h [] s = Inr s"
| "recurse_seq h (t # ts) s =
     (case recurse h t s of Inl e \<Rightarrow> Inl e | Inr s' \<Rightarrow> recurse_seq h ts s')"
| "recurse_items h [] s = Inr s"
| "recurse_items h ((k, v) # kvs) s =
     (case recurse h v (push_back (h k) s) of
        Inl e \<Rightarrow> Inl e
      | Inr s' \<Rightarrow> recurse_items h kvs s')"

text \<open>
  Lines 487-489: \<^verbatim>\<open>recurse(args); recurse(kwargs)\<close> on empty vectors.  The constants
  of the result are the compilation signature of the call.
\<close>

definition compile_signature ::
  "(string \<Rightarrow> 64 word) \<Rightarrow> 'a pyobj list \<Rightarrow> (string \<times> 'a pyobj) list
     \<Rightarrow> error + 'a sig_state" where
  "compile_signature h args kwargs =
     (case recurse h (PyTuple args) \<lparr>inputs = [], constants = []\<rparr> of
        Inl e \<Rightarrow> Inl e
      | Inr s \<Rightarrow> recurse h (PyDict kwargs) s)"

definition tokens :: "error + 'a sig_state \<Rightarrow> error + 64 word list" where
  "tokens r = map_sum id constants r"

text \<open>
  The call shape of a tree keeps its containers with their sizes and keys, its constants
  and the places of its tensors: a tensor becomes the placeholder, and a list and a tuple
  both become the one kind of ordered sequence the specification knows.  The items of a
  dictionary stay in the order the dictionary lists them in.
\<close>

fun call_shape :: "'a pyobj \<Rightarrow> descriptor"
  and shape_seq :: "'a pyobj list \<Rightarrow> descriptor list"
  and shape_items :: "(string \<times> 'a pyobj) list \<Rightarrow> (string \<times> descriptor) list" where
  "call_shape (PyArr _) = PyArr ()"
| "call_shape PyNone = PyNone"
| "call_shape (PyInt v) = PyInt v"
| "call_shape (PyFloat v) = PyFloat v"
| "call_shape (PyStr v) = PyStr v"
| "call_shape (PyOther v) = PyOther v"
| "call_shape (PyList ts) = PyList (shape_seq ts)"
| "call_shape (PyTuple ts) = PyList (shape_seq ts)"
| "call_shape (PyDict kvs) = PyDict (shape_items kvs)"
| "shape_seq [] = []"
| "shape_seq (t # ts) = call_shape t # shape_seq ts"
| "shape_items [] = []"
| "shape_items ((k, t) # kvs) = (k, call_shape t) # shape_items kvs"

text \<open>
  A mapping of the specification (section 3) is a list of items ordered by key: the
  order in which a dictionary happens to list its keys is no part of its shape.
  \<open>sort_keys\<close> puts the items of every dictionary of a shape in the order of their keys.
\<close>

fun sort_keys :: "descriptor \<Rightarrow> descriptor"
  and sort_keys_seq :: "descriptor list \<Rightarrow> descriptor list"
  and sort_keys_items :: "(string \<times> descriptor) list \<Rightarrow> (string \<times> descriptor) list" where
  "sort_keys (PyList ts) = PyList (sort_keys_seq ts)"
| "sort_keys (PyTuple ts) = PyTuple (sort_keys_seq ts)"
| "sort_keys (PyDict kvs) = PyDict (sort_key fst (sort_keys_items kvs))"
| "sort_keys t = t"
| "sort_keys_seq [] = []"
| "sort_keys_seq (t # ts) = sort_keys t # sort_keys_seq ts"
| "sort_keys_items [] = []"
| "sort_keys_items ((k, t) # kvs) = (k, sort_keys t) # sort_keys_items kvs"

text \<open>
  The compatibility of the specification (section 3): two call bundles have the same
  containers with the same sizes and keys, the same constants, and tensors at the same
  places.
\<close>

definition compatible ::
  "'a pyobj list \<Rightarrow> (string \<times> 'a pyobj) list \<Rightarrow> 'b pyobj list \<Rightarrow> (string \<times> 'b pyobj) list
     \<Rightarrow> bool" where
  "compatible args kwargs args' kwargs' =
     (sort_keys (call_shape (PyTuple args)) = sort_keys (call_shape (PyTuple args'))
      \<and> sort_keys (call_shape (PyDict kwargs)) = sort_keys (call_shape (PyDict kwargs')))"

text \<open>
  Compatible bundles whose dictionaries, the keyword arguments among them, moreover list
  their keys in the same order.
\<close>

definition compatible_in_order ::
  "'a pyobj list \<Rightarrow> (string \<times> 'a pyobj) list \<Rightarrow> 'b pyobj list \<Rightarrow> (string \<times> 'b pyobj) list
     \<Rightarrow> bool" where
  "compatible_in_order args kwargs args' kwargs' =
     (call_shape (PyTuple args) = call_shape (PyTuple args')
      \<and> call_shape (PyDict kwargs) = call_shape (PyDict kwargs'))"

text \<open>
  A weaker agreement of two trees: the same containers with the same sizes and the same
  keys in the same order, tensors at the same places, and at every other leaf a constant of the same Python
  type, whatever its value.  \<open>kind_shape\<close> keeps exactly that of a tree.
\<close>

fun kind_shape :: "'a pyobj \<Rightarrow> descriptor"
  and kind_seq :: "'a pyobj list \<Rightarrow> descriptor list"
  and kind_items :: "(string \<times> 'a pyobj) list \<Rightarrow> (string \<times> descriptor) list" where
  "kind_shape (PyArr _) = PyArr ()"
| "kind_shape PyNone = PyNone"
| "kind_shape (PyInt v) = PyInt 0"
| "kind_shape (PyFloat v) = PyFloat 0"
| "kind_shape (PyStr v) = PyStr []"
| "kind_shape (PyOther v) = PyOther v"
| "kind_shape (PyList ts) = PyList (kind_seq ts)"
| "kind_shape (PyTuple ts) = PyList (kind_seq ts)"
| "kind_shape (PyDict kvs) = PyDict (kind_items kvs)"
| "kind_seq [] = []"
| "kind_seq (t # ts) = kind_shape t # kind_seq ts"
| "kind_items [] = []"
| "kind_items ((k, t) # kvs) = (k, kind_shape t) # kind_items kvs"

text \<open>The string constants of a tree (not the keys of its dictionaries).\<close>

fun strings_of :: "'a pyobj \<Rightarrow> string set"
  and strings_seq :: "'a pyobj list \<Rightarrow> string set"
  and strings_items :: "(string \<times> 'a pyobj) list \<Rightarrow> string set" where
  "strings_of (PyStr v) = {v}"
| "strings_of (PyList ts) = strings_seq ts"
| "strings_of (PyTuple ts) = strings_seq ts"
| "strings_of (PyDict kvs) = strings_items kvs"
| "strings_of _ = {}"
| "strings_seq [] = {}"
| "strings_seq (t # ts) = strings_of t \<union> strings_seq ts"
| "strings_items [] = {}"
| "strings_items ((k, t) # kvs) = strings_of t \<union> strings_items kvs"

definition same_kinds ::
  "'a pyobj list \<Rightarrow> (string \<times> 'a pyobj) list \<Rightarrow> 'b pyobj list \<Rightarrow> (string \<times> 'b pyobj) list
     \<Rightarrow> bool" where
  "same_kinds args kwargs args' kwargs' =
     (kind_seq args = kind_seq args' \<and> kind_items kwargs = kind_items kwargs')"

definition call_strings :: "'a pyobj list \<Rightarrow> (string \<times> 'a pyobj) list \<Rightarrow> string set" where
  "call_strings args kwargs = strings_seq args \<union> strings_items kwargs"

text \<open>
  The tokens \<^verbatim>\<open>recurse\<close> appends for a tree, as a function of the tree alone.
\<close>

fun toks :: "(string \<Rightarrow> 64 word) \<Rightarrow> 'a pyobj \<Rightarrow> error + 64 word list"
  and toks_seq :: "(string \<Rightarrow> 64 word) \<Rightarrow> 'a pyobj list \<Rightarrow> error + 64 word list"
  and toks_items :: "(string \<Rightarrow> 64 word) \<Rightarrow> (string \<times> 'a pyobj) list \<Rightarrow> error + 64 word list" where
  "toks h (PyList l) = map_sum id ((#) list_identifier) (toks_seq h l)"
| "toks h (PyTuple l) = map_sum id ((#) list_identifier) (toks_seq h l)"
| "toks h (PyDict d) = map_sum id ((#) dict_identifier) (toks_items h d)"
| "toks h (PyArr x) = Inr [array_identifier]"
| "toks h (PyStr v) = Inr [h v]"
| "toks h (PyInt v) = (if - (2 ^ 63) \<le> v \<and> v < 2 ^ 63 then Inr [word_of_int v] else Inl CastError)"
| "toks h (PyFloat r) = Inr [r]"
| "toks h _ = Inl UnsupportedTypeError"
| "toks_seq h [] = Inr []"
| "toks_seq h (t # ts) =
     (case toks h t of Inl e \<Rightarrow> Inl e
      | Inr a \<Rightarrow> (case toks_seq h ts of Inl e \<Rightarrow> Inl e | Inr b \<Rightarrow> Inr (a @ b)))"
| "toks_items h [] = Inr []"
| "toks_items h ((k, v) # kvs) =
     (case toks h v of Inl e \<Rightarrow> Inl e
      | Inr a \<Rightarrow> (case toks_items h kvs of Inl e \<Rightarrow> Inl e | Inr b \<Rightarrow> Inr (h k # a @ b)))"

text \<open>
  The process-wide state of the driver: the structure cache \<^verbatim>\<open>tree_cache()\<close> (lines
  391-395), a \<^verbatim>\<open>std::unordered_map\<close> from the identity of a callable to the structure of
  its outputs, and the cache of traces of the primitive layer.
\<close>

type_synonym trace = "array list \<Rightarrow> array list"

record runtime =
  tree_cache :: "nat \<rightharpoonup> descriptor"
  compile_cache :: "(nat \<times> 64 word list \<times> bool) \<rightharpoonup> trace"

text \<open>
  \<^verbatim>\<open>std::unordered_map::insert\<close>: the pair is added when the map has no element with that
  key, and the map is left as it is when it has one.
\<close>

definition umap_insert :: "'k \<Rightarrow> 'v \<Rightarrow> ('k \<rightharpoonup> 'v) \<Rightarrow> ('k \<rightharpoonup> 'v)" where
  "umap_insert k v m = (case m k of Some _ \<Rightarrow> m | None \<Rightarrow> m(k \<mapsto> v))"

text \<open>\<^verbatim>\<open>std::unordered_map::at\<close>, which throws when the key is absent.\<close>

definition umap_at :: "('k \<rightharpoonup> 'v) \<Rightarrow> 'k \<Rightarrow> error + 'v" where
  "umap_at m k = (case m k of Some v \<Rightarrow> Inr v | None \<Rightarrow> Inl OutOfBounds)"

text \<open>
  \<^verbatim>\<open>PyCompiledFun\<close> with \<^verbatim>\<open>captured_inputs\<close> and \<^verbatim>\<open>captured_outputs\<close> both \<^verbatim>\<open>None\<close>: the
  branches guarded by \<^verbatim>\<open>!captured_inputs.is_none()\<close> and \<^verbatim>\<open>!captured_outputs.is_none()\<close>
  and the member \<^verbatim>\<open>num_outputs\<close>, which only they read, are left out.  The member
  \<^verbatim>\<open>fun\<close> is \<open>compiled_fun\<close> here, \<open>fun\<close> being a reserved word.
\<close>

record PyCompiledFun =
  compiled_fun :: callable
  fun_id :: nat
  shapeless :: bool

text \<open>The callback \<^verbatim>\<open>compile_fun\<close> (lines 490-523).\<close>

definition compile_fun ::
  "PyCompiledFun \<Rightarrow> tree list \<Rightarrow> (string \<times> tree) list \<Rightarrow> nat \<Rightarrow> array list \<Rightarrow> runtime
     \<Rightarrow> error + (array list \<times> runtime)" where
  "compile_fun w args kwargs num_args a rt =
     (case tree_unflatten (PyTuple args) a 0 of Inl e \<Rightarrow> Inl e | Inr targs \<Rightarrow>
      case tree_unflatten (PyDict kwargs) a num_args of Inl e \<Rightarrow> Inl e | Inr tkwargs \<Rightarrow>
      case star_call (compiled_fun w) targs tkwargs of Inl e \<Rightarrow> Inl e | Inr out \<Rightarrow>
      case tree_flatten_with_structure (returned out) False of
        Inl e \<Rightarrow> Inl e
      | Inr (outs, py_outputs) \<Rightarrow>
          Inr (outs, rt\<lparr>tree_cache := umap_insert (fun_id w) py_outputs (tree_cache rt)\<rparr>))"

text \<open>
  Modelled from the spec: the primitive \<^verbatim>\<open>mx::detail::compile(fn, id, shapeless,
  constants)\<close> of the core library, an external collaborator whose code is not among the
  sources.  Sections 3 and 4.6: the primitive layer keeps a cache keyed by the identity
  of the callable, the signature and the shapeless flag; on a miss the callback is run
  and its trace is stored under the key; on a hit the stored trace is reused and the
  callback, hence the user callable, is not run.  Tracing itself is not modelled: the
  callback is run on the inputs, and the stored trace computes what the callback
  computes, without its effect on the structure cache.
\<close>

definition compile ::
  "(array list \<Rightarrow> runtime \<Rightarrow> error + (array list \<times> runtime)) \<Rightarrow> nat \<Rightarrow> bool \<Rightarrow> 64 word list
     \<Rightarrow> array list \<Rightarrow> runtime \<Rightarrow> error + (array list \<times> runtime)" where
  "compile callback fid shapeless_flag consts flat_inputs rt =
     (case compile_cache rt (fid, consts, shapeless_flag) of
        Some tr \<Rightarrow> Inr (tr flat_inputs, rt)
      | None \<Rightarrow>
          (case callback flat_inputs rt of
             Inl e \<Rightarrow> Inl e
           | Inr (outs, rt') \<Rightarrow>
               Inr (outs,
                 rt'\<lparr>compile_cache := (compile_cache rt')((fid, consts, shapeless_flag) \<mapsto>
                   (\<lambda>xs. case callback xs rt' of Inl _ \<Rightarrow> [] | Inr (ys, _) \<Rightarrow> ys))\<rparr>)))"

text \<open>\<^verbatim>\<open>PyCompiledFun::call_impl\<close> (lines 429-546).\<close>

definition PyCompiledFun_call_impl ::
  "(string \<Rightarrow> 64 word) \<Rightarrow> PyCompiledFun \<Rightarrow> tree list \<Rightarrow> (string \<times> tree) list \<Rightarrow> runtime
     \<Rightarrow> error + (tree \<times> runtime)" where
  "PyCompiledFun_call_impl h w args kwargs rt =
     (case recurse h (PyTuple args) \<lparr>inputs = [], constants = []\<rparr> of
        Inl e \<Rightarrow> Inl e
      | Inr s1 \<Rightarrow>
      let num_args = length (inputs s1) in
      case recurse h (PyDict kwargs) s1 of Inl e \<Rightarrow> Inl e | Inr s2 \<Rightarrow>
      case compile (compile_fun w args kwargs num_args) (fun_id w) (shapeless w)
             (constants s2) (inputs s2) rt of
        Inl e \<Rightarrow> Inl e
      | Inr (outs, rt') \<Rightarrow>
      case umap_at (tree_cache rt') (fun_id w) of Inl e \<Rightarrow> Inl e | Inr py_outputs \<Rightarrow>
      case tree_unflatten_from_structure py_outputs outs 0 of
        Inl e \<Rightarrow> Inl e
      | Inr t \<Rightarrow> Inr (t, rt'))"

section \<open>Custom-function driver\<close>

text \<open>
  The members \<^verbatim>\<open>fun_\<close>, \<^verbatim>\<open>vjp_fun_\<close>, \<^verbatim>\<open>jvp_fun_\<close> and \<^verbatim>\<open>vmap_fun_\<close> of the class (lines
  956-959); the three overrides are optional.
\<close>

record PyCustomFunction =
  custom_fun :: callable
  vjp_fun :: "callable option"
  jvp_fun :: "callable option"
  vmap_fun :: "callable option"

text \<open>
  \<^verbatim>\<open>PyCustomFunction::InnerFunction::operator()\<close> (lines 684-693).  It calls
  \<^verbatim>\<open>tree_flatten_with_structure\<close> with one argument; the default of the second one is
  declared in \<^verbatim>\<open>python/src/trees.h\<close>, which is not among the sources, and is the
  parameter \<open>strict_default\<close>.  The structure it stores in the shared slot is returned
  with the flat outputs.
\<close>

definition InnerFunction ::
  "bool \<Rightarrow> callable \<Rightarrow> descriptor \<Rightarrow> array list \<Rightarrow> error + (array list \<times> descriptor)" where
  "InnerFunction strict_default f input_structure flat_inputs =
     (case tree_unflatten_from_structure input_structure flat_inputs 0 of
        Inl e \<Rightarrow> Inl e
      | Inr new_inputs \<Rightarrow>
          (case new_inputs of
             PyTuple [targs, tkwargs] \<Rightarrow>
               (case star_call f targs tkwargs of
                  Inl e \<Rightarrow> Inl e
                | Inr out \<Rightarrow> tree_flatten_with_structure (returned out) strict_default)
           | _ \<Rightarrow> Inl CastError))"

text \<open>
  Modelled from the spec: the primitive \<^verbatim>\<open>mx::custom_function(forward, vjp, jvp, vmap)\<close> of
  the core library, an external collaborator whose code is not among the sources.  It is
  a parameter: given the forward function and the overrides that are set, it maps the
  flat inputs to the flat outputs and to the output structure the forward function
  recorded, if it ran.
\<close>

type_synonym custom_primitive =
  "(array list \<Rightarrow> error + (array list \<times> descriptor)) \<Rightarrow> callable option \<Rightarrow> callable option
     \<Rightarrow> callable option \<Rightarrow> array list \<Rightarrow> error + (array list \<times> descriptor option)"

text \<open>\<^verbatim>\<open>PyCustomFunction::call_impl\<close> (lines 869-896).\<close>

definition PyCustomFunction_call_impl ::
  "custom_primitive \<Rightarrow> bool \<Rightarrow> PyCustomFunction \<Rightarrow> tree list \<Rightarrow> (string \<times> tree) list
     \<Rightarrow> error + tree" where
  "PyCustomFunction_call_impl prim strict_default cf args kwargs =
     (if vjp_fun cf = None \<and> jvp_fun cf = None \<and> vmap_fun cf = None
      then map_sum id returned (custom_fun cf args kwargs)
      else
        (case tree_flatten_with_structure (PyTuple [PyTuple args, PyDict kwargs]) False of
           Inl e \<Rightarrow> Inl e
         | Inr (input_arrays, input_structure) \<Rightarrow>
        (case prim (InnerFunction strict_default (custom_fun cf) input_structure)
                (vjp_fun cf) (jvp_fun cf) (vmap_fun cf) input_arrays of
           Inl e \<Rightarrow> Inl e
         | Inr (outs, output_structure) \<Rightarrow>
             (case output_structure of
                None \<Rightarrow> Inl CastError
              | Some s \<Rightarrow> tree_unflatten_from_structure s outs 0))))"

section \<open>The claims in the words of the specification\<close>

text \<open>
  Section 4.5 on a negative axis: it is normalized by adding the rank, plus one when
  output axes are resolved.
\<close>

definition normalized_axis :: "bool \<Rightarrow> nat \<Rightarrow> int \<Rightarrow> int" where
  "normalized_axis output_axes r a = (if a < 0 then a + int r + of_bool output_axes else a)"

text \<open>
  Section 4.3 on the checks at call time, read to the letter: a selected index
  \<^emph>\<open>exceeds\<close> the number of positional arguments supplied, or a selected name is absent
  from the keyword arguments supplied.
\<close>

definition claimed_call_rejection ::
  "int list \<Rightarrow> string list \<Rightarrow> tree list \<Rightarrow> (string \<times> tree) list \<Rightarrow> bool" where
  "claimed_call_rejection nums names args kwargs =
     ((\<exists>n\<in>set nums. int (length args) < n) \<or> (\<exists>k\<in>set names. \<not> contains kwargs k))"

text \<open>
  Section 4.4 on the value the differentiated callable returns: in scalar-only mode a
  single tensor; otherwise a single tensor, or a non-empty ordered sequence whose first
  element is a tensor.  The ordered sequence the code tests for is a Python tuple.
\<close>

definition return_contract :: "bool \<Rightarrow> tree \<Rightarrow> bool" where
  "return_contract scalar_only v =
     (is_array v \<or>
      (\<not> scalar_only \<and> is_tuple v \<and> tuple_items v \<noteq> [] \<and> is_array (hd (tuple_items v))))"










text \<open>
  The restoration that claim C4 describes, leaf by leaf: the leaf at position \<open>k\<close> of the
  tree, counted over its tensor leaves from the left, is replaced by the original tensor
  of position \<open>k\<close> when it still holds the tracer of position \<open>k\<close>, and is kept otherwise.
  The position moves on at every tensor leaf.
\<close>

definition claimed_visitor ::
  "array list \<Rightarrow> array list \<Rightarrow> array \<Rightarrow> nat \<Rightarrow> error + (array \<times> nat)" where
  "claimed_visitor a originals leaf position =
     (if position < length a \<and> position < length originals
         \<and> arr_id leaf = arr_id (a ! position)
      then Inr (originals ! position, Suc position)
      else Inr (leaf, Suc position))"

definition claimed_restore :: "array list \<Rightarrow> array list \<Rightarrow> tree \<Rightarrow> error + tree" where
  "claimed_restore a originals t =
     map_sum id fst (tree_visit_update (claimed_visitor a originals) t 0)"

text \<open>
  A sequence of calls to one compiled wrapper, each made in the process state the one
  before it left; the results are collected in order.
\<close>

fun call_sequence ::
  "(string \<Rightarrow> 64 word) \<Rightarrow> PyCompiledFun \<Rightarrow> (tree list \<times> (string \<times> tree) list) list
     \<Rightarrow> runtime \<Rightarrow> error + (tree list \<times> runtime)" where
  "call_sequence h w [] rt = Inr ([], rt)"
| "call_sequence h w ((args, kwargs) # calls) rt =
     (case PyCompiledFun_call_impl h w args kwargs rt of
        Inl e \<Rightarrow> Inl e
      | Inr (r, rt') \<Rightarrow>
          (case call_sequence h w calls rt' of
             Inl e \<Rightarrow> Inl e
           | Inr (rs, rt'') \<Rightarrow> Inr (r # rs, rt'')))"

section \<open>Callables and parameters of the worked examples\<close>

text \<open>A hash function under which all strings collide.\<close>

definition constant_hash :: "string \<Rightarrow> 64 word" where
  "constant_hash s = 0"

text \<open>\<^verbatim>\<open>def first_arg(*args, **kwargs): return args[0]\<close>, which writes nothing.\<close>

definition first_arg :: callable where
  "first_arg args kwargs =
     (case args of
        [] \<Rightarrow> Inl InvalidArgumentError
      | x # _ \<Rightarrow> Inr \<lparr>returned = x, tree_after = PyList [PyTuple args, PyDict kwargs]\<rparr>)"

text \<open>A primitive layer that refuses every custom function.\<close>

definition failing_primitive :: custom_primitive where
  "failing_primitive forward vjp jvp vmap xs = Inl UnsupportedArgumentError"

text \<open>
  \<^verbatim>\<open>def first_leaf(*args, **kwargs)\<close>: returns the first tensor found among the positional
  arguments, and writes nothing.
\<close>

definition first_leaf :: callable where
  "first_leaf args kwargs =
     (case tree_flatten (PyTuple args) False of
        Inr (x # _) \<Rightarrow>
          Inr \<lparr>returned = PyArr x, tree_after = PyList [PyTuple args, PyDict kwargs]\<rparr>
      | _ \<Rightarrow> Inl InvalidArgumentError)"

text \<open>
  \<^verbatim>\<open>def overwrite_first(lst): lst[0] = z; return lst[1]\<close>, where \<open>z\<close> is a fresh tensor:
  after the call the list the caller passed holds \<open>z\<close> in its first slot.
\<close>

definition overwrite_first :: callable where
  "overwrite_first args kwargs =
     (case args of
        [PyList (t0 # t1 # rest)] \<Rightarrow>
          Inr \<lparr>returned = t1,
               tree_after =
                 PyList [PyTuple [PyList (PyArr (Array 50 []) # t1 # rest)], PyDict kwargs]\<rparr>
      | _ \<Rightarrow> Inl InvalidArgumentError)"


text \<open>\<^verbatim>\<open>def pair_if(x, n): return x if n == 0 else (x, x)\<close>.\<close>

definition pair_if :: callable where
  "pair_if args kwargs =
     (case args of
        [x, PyInt n] \<Rightarrow>
          Inr \<lparr>returned = (if n = 0 then x else PyTuple [x, x]),
               tree_after = PyList [PyTuple args, PyDict kwargs]\<rparr>
      | _ \<Rightarrow> Inl InvalidArgumentError)"

text \<open>
  A gradient primitive for the examples: the tracer of a tensor has its identity plus
  100, the values are the flat outputs of the closure, and the gradient with respect to
  the flat input at index \<open>i\<close> is the tensor of identity \<open>i + 200\<close>.
\<close>

definition tracing_engine :: grad_engine where
  "tracing_engine =
     \<lparr>trace_inputs = map (\<lambda>x. Array (arr_id x + 100) (shape x)),
      finish = (\<lambda>outs idx xs. Inr (outs, map (\<lambda>i. Array (i + 200) []) idx))\<rparr>"

text \<open>The process state before anything was compiled.\<close>

definition empty_runtime :: runtime where
  "empty_runtime = \<lparr>tree_cache = Map.empty, compile_cache = Map.empty\<rparr>"

section \<open>Properties of the codec\<close>

lemma flatten_nonstrict_total:
  fixes t :: "'a pyobj" and ts :: "'a pyobj list" and kvs :: "(string \<times> 'a pyobj) list"
  shows "strict = False \<Longrightarrow> \<exists>xs. tree_flatten t strict = Inr xs"
    and "strict = False \<Longrightarrow> \<exists>xs. flatten_seq ts strict = Inr xs"
    and "strict = False \<Longrightarrow> \<exists>xs. flatten_items kvs strict = Inr xs"
  by (induction t strict and ts strict and kvs strict
      rule: tree_flatten_flatten_seq_flatten_items.induct) auto

text \<open>
  The walk over the descriptor of \<open>t\<close>, started at the place in the list where the
  tensors of \<open>t\<close> begin, gives \<open>t\<close> back and stops right after them, whatever stands
  before and after them in the list.
\<close>

lemma unflatten_flatten_gen:
  fixes t :: "'a pyobj" and ts :: "'a pyobj list" and kvs :: "(string \<times> 'a pyobj) list"
  shows "tree_flatten t strict = Inr xs \<Longrightarrow>
           unflatten_from (map_pyobj f t) (pre @ xs @ post) (length pre)
             = Inr (t, length pre + length xs)"
    and "flatten_seq ts strict = Inr xs \<Longrightarrow>
           unflatten_seq (map (map_pyobj f) ts) (pre @ xs @ post) (length pre)
             = Inr (ts, length pre + length xs)"
    and "flatten_items kvs strict = Inr xs \<Longrightarrow>
           unflatten_items (map (map_prod id (map_pyobj f)) kvs) (pre @ xs @ post)
             (length pre) = Inr (kvs, length pre + length xs)"
proof (induction t strict and ts strict and kvs strict
    arbitrary: xs pre post and xs pre post and xs pre post
    rule: tree_flatten_flatten_seq_flatten_items.induct)
  case (7 t ts strict)
  from "7.prems" obtain ys zs where
    y: "tree_flatten t strict = Inr ys" and z: "flatten_seq ts strict = Inr zs"
    and xs: "xs = ys @ zs"
    by (auto split: sum.splits)
  have a: "unflatten_from (map_pyobj f t) (pre @ ys @ (zs @ post)) (length pre)
             = Inr (t, length pre + length ys)"
    using "7.IH"(1) [OF y] .
  have b: "unflatten_seq (map (map_pyobj f) ts) ((pre @ ys) @ zs @ post) (length (pre @ ys))
             = Inr (ts, length (pre @ ys) + length zs)"
    using "7.IH"(2) [OF y z] .
  show ?case using a b by (simp add: xs)
next
  case (9 k t kvs strict)
  from "9.prems" obtain ys zs where
    y: "tree_flatten t strict = Inr ys" and z: "flatten_items kvs strict = Inr zs"
    and xs: "xs = ys @ zs"
    by (auto split: sum.splits)
  have a: "unflatten_from (map_pyobj f t) (pre @ ys @ (zs @ post)) (length pre)
             = Inr (t, length pre + length ys)"
    using "9.IH"(1) [OF y] .
  have b: "unflatten_items (map (map_prod id (map_pyobj f)) kvs) ((pre @ ys) @ zs @ post)
             (length (pre @ ys)) = Inr (kvs, length (pre @ ys) + length zs)"
    using "9.IH"(2) [OF y z] .
  show ?case using a b by (simp add: xs id_def)
qed (auto split: if_splits simp: nth_append)

text \<open>
  Claim C1.  For every tree \<open>t\<close> of nested lists, tuples and dictionaries with tensor
  leaves and constant leaves, \<open>flatten_with_structure\<close> succeeds, and unflattening the
  tensor list it returns against the structure descriptor it returns gives \<open>t\<close> itself:
  the same container at every node, with the same size and the same keys, the same
  constant leaves, and at every tensor leaf the very tensor (same identity) that was
  there.
\<close>

theorem C1_unflatten_flatten_roundtrip:
  "\<exists>xs s. tree_flatten_with_structure t False = Inr (xs, s)
     \<and> tree_unflatten_from_structure s xs 0 = Inr t"
proof -
  obtain xs where x: "tree_flatten t False = Inr xs"
    using flatten_nonstrict_total(1) by blast
  have "unflatten_from (map_pyobj (\<lambda>_. ()) t) ([] @ xs @ []) (length ([] :: 'a list))
          = Inr (t, length ([] :: 'a list) + length xs)"
    by (rule unflatten_flatten_gen(1) [OF x])
  then show ?thesis
    by (simp add: tree_flatten_with_structure_def tree_unflatten_from_structure_def x)
qed



section \<open>Properties of the compilation signature\<close>

lemma tokens_simps [simp]:
  "tokens (Inl e) = Inl e" "tokens (Inr s) = Inr (constants s)"
  by (simp_all add: tokens_def)

lemma tokens_of_shape:
  fixes t :: "'a pyobj" and ts :: "'a pyobj list" and kvs :: "(string \<times> 'a pyobj) list"
  shows "constants s = constants (s' :: unit sig_state) \<Longrightarrow>
           tokens (recurse h (call_shape t) s') = tokens (recurse h t s)"
    and "constants s = constants (s' :: unit sig_state) \<Longrightarrow>
           tokens (recurse_seq h (shape_seq ts) s') = tokens (recurse_seq h ts s)"
    and "constants s = constants (s' :: unit sig_state) \<Longrightarrow>
           tokens (recurse_items h (shape_items kvs) s') = tokens (recurse_items h kvs s)"
proof (induction h t s and h ts s and h kvs s arbitrary: s' and s' and s'
    rule: recurse_recurse_seq_recurse_items.induct)
  case (10 h t ts s)
  have a: "tokens (recurse h (call_shape t) s') = tokens (recurse h t s)"
    using "10.IH"(1) "10.prems" .
  show ?case
  proof (cases "recurse h t s")
    case (Inl e)
    with a show ?thesis by (cases "recurse h (call_shape t) s'") auto
  next
    case (Inr u)
    with a obtain u' where u': "recurse h (call_shape t) s' = Inr u'" "constants u = constants u'"
      by (cases "recurse h (call_shape t) s'") auto
    show ?thesis using "10.IH"(2) [OF Inr u'(2)] Inr u'(1) by simp
  qed
next
  case (12 h k v kvs s)
  have c: "constants (push_back (h k) s) = constants (push_back (h k) s')"
    using "12.prems" by (simp add: push_back_def)
  have a: "tokens (recurse h (call_shape v) (push_back (h k) s'))
             = tokens (recurse h v (push_back (h k) s))"
    using "12.IH"(1) c .
  show ?case
  proof (cases "recurse h v (push_back (h k) s)")
    case (Inl e)
    with a show ?thesis by (cases "recurse h (call_shape v) (push_back (h k) s')") auto
  next
    case (Inr u)
    with a obtain u' where u': "recurse h (call_shape v) (push_back (h k) s') = Inr u'"
        "constants u = constants u'"
      by (cases "recurse h (call_shape v) (push_back (h k) s')") auto
    show ?thesis using "12.IH"(2) [OF Inr u'(2)] Inr u'(1) by simp
  qed
qed (auto simp: push_back_def)

lemma tokens_same_shape:
  assumes "call_shape t = call_shape t'" and "constants s = constants s'"
  shows "tokens (recurse h t s) = tokens (recurse h t' s')"
proof -
  let ?u = "\<lparr>inputs = [] :: unit list, constants = constants s\<rparr>"
  have "tokens (recurse h (call_shape t) ?u) = tokens (recurse h t s)"
    by (rule tokens_of_shape(1)) simp
  moreover have "tokens (recurse h (call_shape t') ?u) = tokens (recurse h t' s')"
    by (rule tokens_of_shape(1)) (simp add: assms(2))
  ultimately show ?thesis using assms(1) by simp
qed

lemma signature_same_shape:
  assumes "compatible_in_order args kwargs args' kwargs'"
  shows "tokens (compile_signature h args kwargs) = tokens (compile_signature h args' kwargs')"
proof -
  let ?e = "\<lparr>inputs = [], constants = []\<rparr>"
  have a: "call_shape (PyTuple args) = call_shape (PyTuple args')"
    and k: "call_shape (PyDict kwargs) = call_shape (PyDict kwargs')"
    using assms by (simp_all add: compatible_in_order_def)
  have 1: "tokens (recurse h (PyTuple args) ?e) = tokens (recurse h (PyTuple args') ?e)"
    by (rule tokens_same_shape [OF a]) simp
  show ?thesis
  proof (cases "recurse h (PyTuple args) ?e")
    case (Inl e)
    with 1 show ?thesis
      by (cases "recurse h (PyTuple args') ?e") (auto simp: compile_signature_def)
  next
    case (Inr s)
    with 1 obtain s' where s': "recurse h (PyTuple args') ?e = Inr s'" "constants s = constants s'"
      by (cases "recurse h (PyTuple args') ?e") auto
    show ?thesis
      using tokens_same_shape [OF k s'(2), of h] Inr s'(1)
      by (simp add: compile_signature_def)
  qed
qed

lemma shape_map:
  fixes t :: "'a pyobj" and ts :: "'a pyobj list" and kvs :: "(string \<times> 'a pyobj) list"
  shows "call_shape (map_pyobj f t) = call_shape t"
    and "shape_seq (map (map_pyobj f) ts) = shape_seq ts"
    and "shape_items (map (map_prod id (map_pyobj f)) kvs) = shape_items kvs"
  by (induction t and ts and kvs rule: call_shape_shape_seq_shape_items.induct)
    (simp_all add: id_def)

lemma recurse_toks:
  fixes t :: "'a pyobj" and ts :: "'a pyobj list" and kvs :: "(string \<times> 'a pyobj) list"
  shows "tokens (recurse h t s) = map_sum id ((@) (constants s)) (toks h t)"
    and "tokens (recurse_seq h ts s) = map_sum id ((@) (constants s)) (toks_seq h ts)"
    and "tokens (recurse_items h kvs s) = map_sum id ((@) (constants s)) (toks_items h kvs)"
proof (induction h t s and h ts s and h kvs s
    rule: recurse_recurse_seq_recurse_items.induct)
  case (1 h l s)
  then show ?case by (cases "toks_seq h l") (auto simp: push_back_def)
next
  case (2 h l s)
  then show ?case by (cases "toks_seq h l") (auto simp: push_back_def)
next
  case (3 h d s)
  then show ?case by (cases "toks_items h d") (auto simp: push_back_def)
next
  case (10 h t ts s)
  show ?case
  proof (cases "recurse h t s")
    case (Inl e)
    with "10.IH"(1) show ?thesis by (cases "toks h t") auto
  next
    case (Inr u)
    with "10.IH"(1) obtain a where a: "toks h t = Inr a" "constants u = constants s @ a"
      by (cases "toks h t") auto
    show ?thesis using "10.IH"(2) [OF Inr] Inr a
      by (cases "toks_seq h ts") auto
  qed
next
  case (12 h k v kvs s)
  show ?case
  proof (cases "recurse h v (push_back (h k) s)")
    case (Inl e)
    with "12.IH"(1) show ?thesis by (cases "toks h v") auto
  next
    case (Inr u)
    with "12.IH"(1) obtain a where a: "toks h v = Inr a" "constants u = constants s @ h k # a"
      by (cases "toks h v") (auto simp: push_back_def)
    show ?thesis using "12.IH"(2) [OF Inr] Inr a
      by (cases "toks_items h kvs") auto
  qed
qed (auto simp: push_back_def)

lemma map_sum_cons_Inr:
  "map_sum id ((#) c) r = Inr a \<Longrightarrow> \<exists>a'. r = Inr a' \<and> a = c # a'"
  by (cases r) auto

lemma kind_shape_list:
  "kind_shape t' = PyList ks \<Longrightarrow> \<exists>us. (t' = PyList us \<or> t' = PyTuple us) \<and> kind_seq us = ks"
  by (cases t') auto

lemma kind_shape_dict:
  "kind_shape t' = PyDict ks \<Longrightarrow> \<exists>us. t' = PyDict us \<and> kind_items us = ks"
  by (cases t') auto

lemma toks_length:
  fixes t :: "'a pyobj" and ts :: "'a pyobj list" and kvs :: "(string \<times> 'a pyobj) list"
    and t' :: "'b pyobj" and ts' :: "'b pyobj list" and kvs' :: "(string \<times> 'b pyobj) list"
  shows "kind_shape t = kind_shape t' \<Longrightarrow> toks h t = Inr a \<Longrightarrow> toks h t' = Inr b
           \<Longrightarrow> length a = length b"
    and "kind_seq ts = kind_seq ts' \<Longrightarrow> toks_seq h ts = Inr a \<Longrightarrow> toks_seq h ts' = Inr b
           \<Longrightarrow> length a = length b"
    and "kind_items kvs = kind_items kvs' \<Longrightarrow> toks_items h kvs = Inr a
           \<Longrightarrow> toks_items h kvs' = Inr b \<Longrightarrow> length a = length b"
proof (induction t and ts and kvs arbitrary: t' a b and ts' a b and kvs' a b
    rule: kind_shape_kind_seq_kind_items.induct)
  case (7 ts)
  from "7.prems"(1) obtain us where t': "t' = PyList us \<or> t' = PyTuple us"
    and k: "kind_seq ts = kind_seq us"
    using kind_shape_list [of t' "kind_seq ts"] by auto
  from "7.prems"(2) obtain a' where a': "toks_seq h ts = Inr a'" "a = list_identifier # a'"
    using map_sum_cons_Inr by fastforce
  from "7.prems"(3) t' obtain b' where b': "toks_seq h us = Inr b'" "b = list_identifier # b'"
    using map_sum_cons_Inr by fastforce
  from "7.IH" [OF k a'(1) b'(1)] show ?case using a' b' by simp
next
  case (8 ts)
  from "8.prems"(1) obtain us where t': "t' = PyList us \<or> t' = PyTuple us"
    and k: "kind_seq ts = kind_seq us"
    using kind_shape_list [of t' "kind_seq ts"] by auto
  from "8.prems"(2) obtain a' where a': "toks_seq h ts = Inr a'" "a = list_identifier # a'"
    using map_sum_cons_Inr by fastforce
  from "8.prems"(3) t' obtain b' where b': "toks_seq h us = Inr b'" "b = list_identifier # b'"
    using map_sum_cons_Inr by fastforce
  from "8.IH" [OF k a'(1) b'(1)] show ?case using a' b' by simp
next
  case (9 kvs)
  from "9.prems"(1) obtain us where t': "t' = PyDict us"
    and k: "kind_items kvs = kind_items us"
    using kind_shape_dict [of t' "kind_items kvs"] by auto
  from "9.prems"(2) obtain a' where a': "toks_items h kvs = Inr a'" "a = dict_identifier # a'"
    using map_sum_cons_Inr by fastforce
  from "9.prems"(3) t' obtain b' where b': "toks_items h us = Inr b'" "b = dict_identifier # b'"
    using map_sum_cons_Inr by fastforce
  from "9.IH" [OF k a'(1) b'(1)] show ?case using a' b' by simp
next
  case (11 t ts)
  from "11.prems"(1) obtain u us where ts': "ts' = u # us"
    and k: "kind_shape t = kind_shape u" "kind_seq ts = kind_seq us"
    by (cases ts') auto
  from "11.prems"(2) obtain a1 a2 where a: "toks h t = Inr a1" "toks_seq h ts = Inr a2" "a = a1 @ a2"
    by (auto split: sum.splits)
  from "11.prems"(3) ts' obtain b1 b2 where b: "toks h u = Inr b1" "toks_seq h us = Inr b2" "b = b1 @ b2"
    by (auto split: sum.splits)
  from "11.IH"(1) [OF k(1) a(1) b(1)] "11.IH"(2) [OF k(2) a(2) b(2)]
  show ?case using a b by simp
next
  case (13 k t kvs)
  from "13.prems"(1) obtain u us where kvs': "kvs' = (k, u) # us"
    and kk: "kind_shape t = kind_shape u" "kind_items kvs = kind_items us"
    by (cases kvs') auto
  from "13.prems"(2) obtain a1 a2 where a: "toks h t = Inr a1" "toks_items h kvs = Inr a2"
      "a = h k # a1 @ a2"
    by (auto split: sum.splits)
  from "13.prems"(3) kvs' obtain b1 b2 where b: "toks h u = Inr b1" "toks_items h us = Inr b2"
      "b = h k # b1 @ b2"
    by (auto split: sum.splits)
  from "13.IH"(1) [OF kk(1) a(1) b(1)] "13.IH"(2) [OF kk(2) a(2) b(2)]
  show ?case using a b by simp
next
  case 10
  then show ?case by (cases ts') auto
next
  case 12
  then show ?case by (cases kvs') auto
next
  case (1 x)
  then show ?case by (cases t') (auto split: if_splits)
next
  case 2
  then show ?case by (cases t') (auto split: if_splits)
next
  case (3 v)
  then show ?case by (cases t') (auto split: if_splits)
next
  case (4 v)
  then show ?case by (cases t') (auto split: if_splits)
next
  case (5 v)
  then show ?case by (cases t') (auto split: if_splits)
next
  case (6 v)
  then show ?case by (cases t') (auto split: if_splits)
qed


lemma word_of_int_64_inj:
  assumes "- (2 ^ 63) \<le> x" "x < 2 ^ 63" "- (2 ^ 63) \<le> y" "y < 2 ^ 63"
    and "(word_of_int x :: 64 word) = word_of_int y"
  shows "x = y"
proof -
  have "sint (word_of_int x :: 64 word) = sint (word_of_int y :: 64 word)"
    using assms(5) by simp
  moreover have "sint (word_of_int x :: 64 word) = x"
    using assms(1,2) by (simp add: signed_of_int signed_take_bit_int_eq_self)
  moreover have "sint (word_of_int y :: 64 word) = y"
    using assms(3,4) by (simp add: signed_of_int signed_take_bit_int_eq_self)
  ultimately show ?thesis by simp
qed

lemma toks_inj:
  fixes t :: "'a pyobj" and ts :: "'a pyobj list" and kvs :: "(string \<times> 'a pyobj) list"
    and t' :: "'b pyobj" and ts' :: "'b pyobj list" and kvs' :: "(string \<times> 'b pyobj) list"
  shows "kind_shape t = kind_shape t' \<Longrightarrow> inj_on h (strings_of t \<union> strings_of t')
           \<Longrightarrow> toks h t = Inr a \<Longrightarrow> toks h t' = Inr a \<Longrightarrow> call_shape t = call_shape t'"
    and "kind_seq ts = kind_seq ts' \<Longrightarrow> inj_on h (strings_seq ts \<union> strings_seq ts')
           \<Longrightarrow> toks_seq h ts = Inr a \<Longrightarrow> toks_seq h ts' = Inr a
           \<Longrightarrow> shape_seq ts = shape_seq ts'"
    and "kind_items kvs = kind_items kvs' \<Longrightarrow> inj_on h (strings_items kvs \<union> strings_items kvs')
           \<Longrightarrow> toks_items h kvs = Inr a \<Longrightarrow> toks_items h kvs' = Inr a
           \<Longrightarrow> shape_items kvs = shape_items kvs'"
proof (induction t and ts and kvs arbitrary: t' a and ts' a and kvs' a
    rule: kind_shape_kind_seq_kind_items.induct)
  case (7 ts)
  from "7.prems"(1) obtain us where t': "t' = PyList us \<or> t' = PyTuple us"
    and k: "kind_seq ts = kind_seq us"
    using kind_shape_list [of t' "kind_seq ts"] by auto
  from "7.prems"(3) obtain a' where a': "toks_seq h ts = Inr a'" "a = list_identifier # a'"
    using map_sum_cons_Inr by fastforce
  from "7.prems"(4) t' a'(2) have b': "toks_seq h us = Inr a'"
    using map_sum_cons_Inr by fastforce
  have i: "inj_on h (strings_seq ts \<union> strings_seq us)" using "7.prems"(2) t' by auto
  from "7.IH" [OF k i a'(1) b'] show ?case using t' by auto
next
  case (8 ts)
  from "8.prems"(1) obtain us where t': "t' = PyList us \<or> t' = PyTuple us"
    and k: "kind_seq ts = kind_seq us"
    using kind_shape_list [of t' "kind_seq ts"] by auto
  from "8.prems"(3) obtain a' where a': "toks_seq h ts = Inr a'" "a = list_identifier # a'"
    using map_sum_cons_Inr by fastforce
  from "8.prems"(4) t' a'(2) have b': "toks_seq h us = Inr a'"
    using map_sum_cons_Inr by fastforce
  have i: "inj_on h (strings_seq ts \<union> strings_seq us)" using "8.prems"(2) t' by auto
  from "8.IH" [OF k i a'(1) b'] show ?case using t' by auto
next
  case (9 kvs)
  from "9.prems"(1) obtain us where t': "t' = PyDict us"
    and k: "kind_items kvs = kind_items us"
    using kind_shape_dict [of t' "kind_items kvs"] by auto
  from "9.prems"(3) obtain a' where a': "toks_items h kvs = Inr a'" "a = dict_identifier # a'"
    using map_sum_cons_Inr by fastforce
  from "9.prems"(4) t' a'(2) have b': "toks_items h us = Inr a'"
    using map_sum_cons_Inr by fastforce
  have i: "inj_on h (strings_items kvs \<union> strings_items us)" using "9.prems"(2) t' by auto
  from "9.IH" [OF k i a'(1) b'] show ?case using t' by auto
next
  case (11 t ts)
  from "11.prems"(1) obtain u us where ts': "ts' = u # us"
    and k: "kind_shape t = kind_shape u" "kind_seq ts = kind_seq us"
    by (cases ts') auto
  from "11.prems"(3) obtain a1 a2 where a: "toks h t = Inr a1" "toks_seq h ts = Inr a2" "a = a1 @ a2"
    by (auto split: sum.splits)
  from "11.prems"(4) ts' obtain b1 b2 where b: "toks h u = Inr b1" "toks_seq h us = Inr b2" "a = b1 @ b2"
    by (auto split: sum.splits)
  have "length a1 = length b1" by (rule toks_length(1) [OF k(1) a(1) b(1)])
  then have e: "a1 = b1" "a2 = b2" using a(3) b(3) by auto
  have i1: "inj_on h (strings_of t \<union> strings_of u)"
    using "11.prems"(2) ts' by (auto intro: inj_on_subset)
  have i2: "inj_on h (strings_seq ts \<union> strings_seq us)"
    using "11.prems"(2) ts' by (auto intro: inj_on_subset)
  from "11.IH"(1) [OF k(1) i1 a(1)] "11.IH"(2) [OF k(2) i2 a(2)] b e
  show ?case using ts' by simp
next
  case (13 k t kvs)
  from "13.prems"(1) obtain u us where kvs': "kvs' = (k, u) # us"
    and kk: "kind_shape t = kind_shape u" "kind_items kvs = kind_items us"
    by (cases kvs') auto
  from "13.prems"(3) obtain a1 a2 where a: "toks h t = Inr a1" "toks_items h kvs = Inr a2"
      "a = h k # a1 @ a2"
    by (auto split: sum.splits)
  from "13.prems"(4) kvs' obtain b1 b2 where b: "toks h u = Inr b1" "toks_items h us = Inr b2"
      "a = h k # b1 @ b2"
    by (auto split: sum.splits)
  have "length a1 = length b1" by (rule toks_length(1) [OF kk(1) a(1) b(1)])
  then have e: "a1 = b1" "a2 = b2" using a(3) b(3) by auto
  have i1: "inj_on h (strings_of t \<union> strings_of u)"
    using "13.prems"(2) kvs' by (auto intro: inj_on_subset)
  have i2: "inj_on h (strings_items kvs \<union> strings_items us)"
    using "13.prems"(2) kvs' by (auto intro: inj_on_subset)
  from "13.IH"(1) [OF kk(1) i1 a(1)] "13.IH"(2) [OF kk(2) i2 a(2)] b e
  show ?case using kvs' by simp
next
  case 10
  then show ?case by (cases ts') auto
next
  case 12
  then show ?case by (cases kvs') auto
next
  case (1 x)
  then show ?case by (cases t') (auto split: if_splits)
next
  case 2
  then show ?case by (cases t') (auto split: if_splits)
next
  case (3 v)
  from "3.prems"(1) obtain v' where t': "t' = PyInt v'" by (cases t') auto
  from "3.prems"(3) have v: "- (2 ^ 63) \<le> v" "v < 2 ^ 63" and a: "a = [word_of_int v]"
    by (auto split: if_splits)
  from "3.prems"(4) t' have v': "- (2 ^ 63) \<le> v'" "v' < 2 ^ 63" and a': "a = [word_of_int v']"
    by (auto split: if_splits)
  have "v = v'" using a a' by (intro word_of_int_64_inj [OF v v']) simp
  then show ?case using t' by simp
next
  case (4 v)
  then show ?case by (cases t') (auto split: if_splits)
next
  case (5 v)
  then show ?case by (cases t') (auto split: if_splits dest: inj_onD)
next
  case (6 v)
  then show ?case by (cases t') (auto split: if_splits)
qed


lemma signature_toks:
  "tokens (compile_signature h args kwargs) =
     (case toks h (PyTuple args) of
        Inl e \<Rightarrow> Inl e
      | Inr a \<Rightarrow> map_sum id ((@) a) (toks h (PyDict kwargs)))"
proof (cases "recurse h (PyTuple args) \<lparr>inputs = [], constants = []\<rparr>")
  case (Inl e)
  then show ?thesis
    using recurse_toks(1) [of h "PyTuple args" "\<lparr>inputs = [], constants = []\<rparr>"]
    by (cases "toks h (PyTuple args)") (auto simp: compile_signature_def)
next
  case (Inr s)
  then obtain a where a: "toks h (PyTuple args) = Inr a" "constants s = a"
    using recurse_toks(1) [of h "PyTuple args" "\<lparr>inputs = [], constants = []\<rparr>"]
    by (cases "toks h (PyTuple args)") auto
  show ?thesis
    using recurse_toks(1) [of h "PyDict kwargs" s] Inr a
    by (simp add: compile_signature_def)
qed

lemma signature_converse:
  assumes k: "same_kinds args kwargs args' kwargs'"
    and i: "inj_on h (call_strings args kwargs \<union> call_strings args' kwargs')"
    and e1: "tokens (compile_signature h args kwargs) = Inr sg"
    and e2: "tokens (compile_signature h args' kwargs') = Inr sg"
  shows "compatible_in_order args kwargs args' kwargs'"
proof -
  from e1 obtain a b where a: "toks h (PyTuple args) = Inr a" "toks h (PyDict kwargs) = Inr b"
      "sg = a @ b"
    unfolding signature_toks
    by (cases "toks h (PyTuple args)"; cases "toks h (PyDict kwargs)") auto
  from e2 obtain a' b' where a': "toks h (PyTuple args') = Inr a'" "toks h (PyDict kwargs') = Inr b'"
      "sg = a' @ b'"
    unfolding signature_toks
    by (cases "toks h (PyTuple args')"; cases "toks h (PyDict kwargs')") auto
  have ka: "kind_shape (PyTuple args) = kind_shape (PyTuple args')"
    and kk: "kind_shape (PyDict kwargs) = kind_shape (PyDict kwargs')"
    using k by (simp_all add: same_kinds_def)
  have "length a = length a'" by (rule toks_length(1) [OF ka a(1) a'(1)])
  then have e: "a = a'" "b = b'" using a(3) a'(3) by auto
  have ia: "inj_on h (strings_of (PyTuple args) \<union> strings_of (PyTuple args'))"
    using i by (auto simp: call_strings_def intro: inj_on_subset)
  have ik: "inj_on h (strings_of (PyDict kwargs) \<union> strings_of (PyDict kwargs'))"
    using i by (auto simp: call_strings_def intro: inj_on_subset)
  have "call_shape (PyTuple args) = call_shape (PyTuple args')"
    using toks_inj(1) [OF ka ia a(1)] a'(1) e by simp
  moreover have "call_shape (PyDict kwargs) = call_shape (PyDict kwargs')"
    using toks_inj(1) [OF kk ik a(2)] a'(2) e by simp
  ultimately show ?thesis by (simp add: compatible_in_order_def)
qed

lemma in_order_compatible:
  "compatible_in_order args kwargs args' kwargs' \<Longrightarrow> compatible args kwargs args' kwargs'"
  by (simp add: compatible_in_order_def compatible_def)

text \<open>
  Claim C3, as amended.  If two calls are shapeless-compile-compatible, that is, their
  argument bundles have the same containers with the same sizes and keys, the same
  constants and tensors at the same places, and their dictionaries (the keyword
  arguments among them) list their keys in the same order, then \<^verbatim>\<open>recurse\<close> gives them
  the same list of tokens, or fails on both with the same error.  In particular a call
  whose tensors were replaced by other tensors, everything else kept, has the signature
  of the original call.  Conversely, when two calls have the same containers, sizes and
  keys in the same order, tensors at the same places and constants of the same Python
  type at the same places, and the hash does not collide on the string constants of the
  two calls, the same signature means the same constants: for such calls, changing the
  value of a constant changes the signature.
\<close>

theorem C3_signature_of_compatible_calls:
  "(compatible_in_order args kwargs args' kwargs' \<longrightarrow>
      compatible args kwargs args' kwargs'
      \<and> tokens (compile_signature h args kwargs) = tokens (compile_signature h args' kwargs'))
   \<and> tokens (compile_signature h (map (map_pyobj f) args)
        (map (map_prod id (map_pyobj f)) kwargs)) = tokens (compile_signature h args kwargs)
   \<and> (same_kinds args kwargs args' kwargs'
        \<and> inj_on h (call_strings args kwargs \<union> call_strings args' kwargs')
        \<and> tokens (compile_signature h args kwargs) = Inr sg
        \<and> tokens (compile_signature h args' kwargs') = Inr sg
      \<longrightarrow> compatible_in_order args kwargs args' kwargs')"
proof (intro conjI impI)
  assume "compatible_in_order args kwargs args' kwargs'"
  then show "compatible args kwargs args' kwargs'"
    by (rule in_order_compatible)
next
  assume "compatible_in_order args kwargs args' kwargs'"
  then show "tokens (compile_signature h args kwargs) = tokens (compile_signature h args' kwargs')"
    by (rule signature_same_shape)
next
  have "compatible_in_order (map (map_pyobj f) args) (map (map_prod id (map_pyobj f)) kwargs)
          args kwargs"
    by (simp add: compatible_in_order_def shape_map)
  then show "tokens (compile_signature h (map (map_pyobj f) args)
        (map (map_prod id (map_pyobj f)) kwargs)) = tokens (compile_signature h args kwargs)"
    by (rule signature_same_shape)
next
  assume "same_kinds args kwargs args' kwargs'
        \<and> inj_on h (call_strings args kwargs \<union> call_strings args' kwargs')
        \<and> tokens (compile_signature h args kwargs) = Inr sg
        \<and> tokens (compile_signature h args' kwargs') = Inr sg"
  then show "compatible_in_order args kwargs args' kwargs'"
    by (blast intro: signature_converse)
qed

text \<open>The definitions a concrete signature is computed with.\<close>

lemmas sig_eval = compile_signature_def tokens_def push_back_def compatible_def
  compatible_in_order_def array_identifier_def list_identifier_def dict_identifier_def

text \<open>
  The claim as stated fails in both directions.  \<^verbatim>\<open>recurse\<close> walks a dictionary in the
  order it lists its keys, so the calls \<^verbatim>\<open>f(a, x=1, y=2)\<close> and \<^verbatim>\<open>f(a, y=2, x=1)\<close>, which are
  compatible, have different signatures whatever the hash of the keys.  And a constant
  is pushed as bare 64 bits next to the markers (lines 436-439): the integer \<open>-59\<close> has
  the bits of \<^verbatim>\<open>array_identifier\<close>, so \<^verbatim>\<open>f(-59)\<close> and \<^verbatim>\<open>f(a)\<close>, which are not compatible,
  have one signature.
\<close>

theorem C3_counterexample:
  "compatible [PyArr (Array 1 [])] [(''x'', PyInt 1), (''y'', PyInt 2)]
      [PyArr (Array 1 [])] [(''y'', PyInt 2), (''x'', PyInt 1)]
   \<and> (\<forall>h. tokens (compile_signature h [PyArr (Array 1 [])] [(''x'', PyInt 1), (''y'', PyInt 2)])
        \<noteq> tokens (compile_signature h [PyArr (Array 1 [])] [(''y'', PyInt 2), (''x'', PyInt 1)]))
   \<and> (\<forall>h. tokens (compile_signature h [PyInt (- 59)] [])
        = tokens (compile_signature h [PyArr (Array 1 [])] []))
   \<and> \<not> compatible [PyInt (- 59)] [] [PyArr (Array 1 [])] []"
  by (simp add: sig_eval)

text \<open>
  Two compatible calls that differ in every tensor, and the seven tokens of their
  common signature; and two calls that differ in the value of one integer constant, and
  in their signatures.
\<close>

theorem C3_witness:
  "compatible_in_order [PyArr (Array 1 [2]), PyInt 3] [(''k'', PyList [PyArr (Array 2 [])])]
      [PyArr (Array 5 [7]), PyInt 3] [(''k'', PyList [PyArr (Array 6 [])])]
   \<and> compatible [PyArr (Array 1 [2]), PyInt 3] [(''k'', PyList [PyArr (Array 2 [])])]
      [PyArr (Array 5 [7]), PyInt 3] [(''k'', PyList [PyArr (Array 6 [])])]
   \<and> tokens (compile_signature constant_hash [PyArr (Array 1 [2]), PyInt 3]
        [(''k'', PyList [PyArr (Array 2 [])])])
     = tokens (compile_signature constant_hash [PyArr (Array 5 [7]), PyInt 3]
        [(''k'', PyList [PyArr (Array 6 [])])])
   \<and> tokens (compile_signature constant_hash [PyArr (Array 1 [2]), PyInt 3]
        [(''k'', PyList [PyArr (Array 2 [])])])
     = Inr [list_identifier, array_identifier, 3, dict_identifier, 0, list_identifier,
            array_identifier]
   \<and> same_kinds [PyArr (Array 1 [2]), PyInt 3] [(''k'', PyList [PyArr (Array 2 [])])]
        [PyArr (Array 5 [7]), PyInt 3] [(''k'', PyList [PyArr (Array 6 [])])]
   \<and> same_kinds [PyArr (Array 1 [2]), PyInt 3] [] [PyArr (Array 1 [2]), PyInt 4] []
   \<and> tokens (compile_signature constant_hash [PyArr (Array 1 [2]), PyInt 3] [])
     \<noteq> tokens (compile_signature constant_hash [PyArr (Array 1 [2]), PyInt 4] [])"
  using C3_signature_of_compatible_calls
    [of "[PyArr (Array 1 [2]), PyInt 3]" "[(''k'', PyList [PyArr (Array 2 [])])]"
        "[PyArr (Array 5 [7]), PyInt 3]" "[(''k'', PyList [PyArr (Array 6 [])])]"
        constant_hash id
        "[list_identifier, array_identifier, 3, dict_identifier, 0, list_identifier,
          array_identifier]"]
  by (simp add: compatible_def compatible_in_order_def same_kinds_def call_strings_def
      compile_signature_def tokens_def push_back_def constant_hash_def)

section \<open>Properties of the axis resolution\<close>

lemma to_int_id: "- (2 ^ 31) \<le> v \<Longrightarrow> v < 2 ^ 31 \<Longrightarrow> to_int v = v"
  unfolding to_int_def
proof -
  assume a: "- (2 ^ 31) \<le> v" and b: "v < 2 ^ 31"
  have "0 \<le> v + 2 ^ 31" "v + 2 ^ 31 < 2 ^ 32" using a b by simp_all
  then have "(v + 2 ^ 31) mod 2 ^ 32 = v + 2 ^ 31" by (rule mod_pos_pos_trivial)
  then show "(v + 2 ^ 31) mod 2 ^ 32 - 2 ^ 31 = v" by simp
qed

lemma resolve_axis_eq:
  assumes "- (2 ^ 31) \<le> a" "a < 2 ^ 31" "int (ndim x) < 2 ^ 31 - 1"
  shows "resolve_axis out x a =
     (if 0 \<le> normalized_axis out (ndim x) a \<and> normalized_axis out (ndim x) a < int (ndim x) + of_bool out
      then Inr (normalized_axis out (ndim x) a) else Inl AxisError)"
proof (cases "a < 0")
  case True
  have "to_int (a + int (ndim x + of_bool out)) = a + int (ndim x + of_bool out)"
    using assms True by (intro to_int_id) (auto simp: of_bool_def)
  then show ?thesis using True assms
    by (auto simp: resolve_axis_def cast_int_def normalized_axis_def Let_def)
next
  case False
  then show ?thesis using assms
    by (auto simp: resolve_axis_def cast_int_def normalized_axis_def Let_def)
qed

text \<open>
  Claim C8.  For a tensor leaf of rank \<open>r\<close> and an integer axis \<open>a\<close> (a C++ \<^verbatim>\<open>int\<close>; the
  rank below \<open>2 ^ 31 - 1\<close>): a negative \<open>a\<close> is normalized to \<open>a + r\<close> for input axes and to
  \<open>a + r + 1\<close> for output axes; the visitor fails with \<open>AxisError\<close> exactly when the
  normalized axis is outside \<open>[0, r)\<close> for inputs, \<open>[0, r + 1)\<close> for outputs, and
  otherwise appends the normalized axis; the axis \<^verbatim>\<open>None\<close> appends the sentinel \<open>-1\<close>.
\<close>

theorem C8_axis_resolution:
  assumes "- (2 ^ 31) \<le> a" and "a < 2 ^ 31" and "int (ndim x) < 2 ^ 31 - 1"
  shows "axes_visitor output_axes (PyArr x) (PyInt a) s =
           (if 0 \<le> normalized_axis output_axes (ndim x) a
               \<and> normalized_axis output_axes (ndim x) a < int (ndim x) + of_bool output_axes
            then Inr (s\<lparr>flat_axes := flat_axes s @ [normalized_axis output_axes (ndim x) a]\<rparr>)
            else Inl AxisError)
         \<and> axes_visitor output_axes (PyArr x) PyNone s = Inr (s\<lparr>flat_axes := flat_axes s @ [- 1]\<rparr>)"
  by (simp add: axes_visitor_def resolve_axis_eq [OF assms])

text \<open>
  On a tensor of rank 2: the input axis \<open>-1\<close> resolves to \<open>1\<close>, the input axis \<open>2\<close> fails,
  the output axis \<open>-1\<close> resolves to \<open>2\<close>, and \<^verbatim>\<open>None\<close> resolves to \<open>-1\<close>.
\<close>

theorem C8_witness:
  "axes_visitor False (PyArr (Array 0 [3, 4])) (PyInt (- 1)) \<lparr>flat_axes = [], encountered_tuple = False\<rparr>
     = Inr \<lparr>flat_axes = [1], encountered_tuple = False\<rparr>
   \<and> axes_visitor False (PyArr (Array 0 [3, 4])) (PyInt 2) \<lparr>flat_axes = [], encountered_tuple = False\<rparr>
     = Inl AxisError
   \<and> axes_visitor True (PyArr (Array 0 [3, 4])) (PyInt (- 1)) \<lparr>flat_axes = [], encountered_tuple = False\<rparr>
     = Inr \<lparr>flat_axes = [2], encountered_tuple = False\<rparr>
   \<and> axes_visitor False (PyArr (Array 0 [3, 4])) PyNone \<lparr>flat_axes = [], encountered_tuple = False\<rparr>
     = Inr \<lparr>flat_axes = [- 1], encountered_tuple = False\<rparr>"
  using C8_axis_resolution [of "- 1" "Array 0 [3, 4]" False "\<lparr>flat_axes = [], encountered_tuple = False\<rparr>"]
    C8_axis_resolution [of 2 "Array 0 [3, 4]" False "\<lparr>flat_axes = [], encountered_tuple = False\<rparr>"]
    C8_axis_resolution [of "- 1" "Array 0 [3, 4]" True "\<lparr>flat_axes = [], encountered_tuple = False\<rparr>"]
  by (simp add: ndim_def normalized_axis_def)

section \<open>Properties of the custom-function driver\<close>

text \<open>
  Claim C9.  A call to a \<^verbatim>\<open>custom_function\<close> wrapper on which no \<^verbatim>\<open>vjp\<close>, \<^verbatim>\<open>jvp\<close> or
  \<^verbatim>\<open>vmap\<close> override is set returns exactly what the wrapped callable returns when it is
  called with the same positional and keyword arguments, and raises what it raises;
  this holds whatever the primitive layer does, which is not called at all.
\<close>

theorem C9_no_override_is_direct_call:
  assumes "vjp_fun cf = None" and "jvp_fun cf = None" and "vmap_fun cf = None"
  shows "PyCustomFunction_call_impl prim strict_default cf args kwargs
           = map_sum id returned (custom_fun cf args kwargs)"
  using assms by (simp add: PyCustomFunction_call_impl_def)

text \<open>
  With a primitive layer that refuses everything, the wrapper without overrides still
  returns what the callable returns, and the wrapper with an override fails.
\<close>

theorem C9_witness:
  "PyCustomFunction_call_impl failing_primitive True
      \<lparr>custom_fun = first_arg, vjp_fun = None, jvp_fun = None, vmap_fun = None\<rparr>
      [PyInt 5, PyArr (Array 1 [])] [(''k'', PyNone)] = Inr (PyInt 5)
   \<and> PyCustomFunction_call_impl failing_primitive True
      \<lparr>custom_fun = first_arg, vjp_fun = Some first_arg, jvp_fun = None, vmap_fun = None\<rparr>
      [PyInt 5, PyArr (Array 1 [])] [(''k'', PyNone)] = Inl UnsupportedArgumentError"
  using C9_no_override_is_direct_call
    [of "\<lparr>custom_fun = first_arg, vjp_fun = None, jvp_fun = None, vmap_fun = None\<rparr>"
        failing_primitive True "[PyInt 5, PyArr (Array 1 [])]" "[(''k'', PyNone)]"]
  by (simp add: first_arg_def PyCustomFunction_call_impl_def failing_primitive_def
      tree_flatten_with_structure_def)

section \<open>Properties of the argument selection\<close>

lemma adjacent_equal_sorted: "sorted xs \<Longrightarrow> adjacent_equal xs = (\<not> distinct xs)"
proof (induction xs rule: adjacent_equal.induct)
  case (1 x y ys)
  then show ?case by (auto simp: order.strict_iff_order)
qed simp_all

lemma hd_sort_negative:
  assumes "nums \<noteq> []"
  shows "(hd (sort nums) < (0::int)) = (\<exists>n\<in>set nums. n < 0)"
proof -
  have ne: "sort nums \<noteq> []" using assms by (metis length_sort length_0_conv)
  then obtain y ys where s: "sort nums = y # ys" by (cases "sort nums") auto
  have srt: "sorted (y # ys)" using sorted_sort s by metis
  have st: "set (y # ys) = set nums" using s by (metis set_sort)
  show ?thesis
  proof
    assume "hd (sort nums) < 0"
    then have "y < 0" using s by simp
    moreover have "y \<in> set nums" using st by auto
    ultimately show "\<exists>n\<in>set nums. n < 0" by blast
  next
    assume "\<exists>n\<in>set nums. n < 0"
    then obtain n where n: "n \<in> set nums" "n < 0" by blast
    then have "n \<in> set (y # ys)" using st by simp
    then have "y \<le> n" using srt by auto
    then show "hd (sort nums) < 0" using n s by simp
  qed
qed

lemma sanitize_argnums_sorted:
  "nums \<noteq> [] \<Longrightarrow> sorted nums \<Longrightarrow> distinct nums \<Longrightarrow> (\<forall>n\<in>set nums. 0 \<le> n)
     \<Longrightarrow> sanitize_argnums k nums = Inr nums"
proof (induction k)
  case 0
  then show ?case by simp
next
  case (Suc k)
  have s: "sort nums = nums" using Suc.prems(2) by (simp add: sorted_sort_id)
  have "\<not> hd nums < 0"
    using Suc.prems by (cases nums) auto
  then show ?case
  using Suc by (simp add: s Let_def adjacent_equal_sorted)
qed

lemma sanitize_argnums_eq:
  assumes "nums \<noteq> []"
  shows "sanitize_argnums (length nums) nums =
     (if (\<exists>n\<in>set nums. n < 0) \<or> \<not> distinct nums then Inl InvalidArgumentError
      else Inr (sort nums))"
proof -
  obtain k where k: "length nums = Suc k" using assms by (cases nums) auto
  have d: "adjacent_equal (sort nums) = (\<not> distinct nums)"
    by (simp add: adjacent_equal_sorted)
  show ?thesis
  proof (cases "(\<exists>n\<in>set nums. n < 0) \<or> \<not> distinct nums")
    case True
    then show ?thesis using hd_sort_negative [OF assms] d by (auto simp: k Let_def)
  next
    case False
    moreover have "sort nums \<noteq> []" using assms by (metis length_sort length_0_conv)
    ultimately have "sanitize_argnums k (sort nums) = Inr (sort nums)"
      by (intro sanitize_argnums_sorted) auto
    then show ?thesis using False hd_sort_negative [OF assms] d by (auto simp: k Let_def)
  qed
qed

lemma py_value_and_grad_eq:
  "py_value_and_grad nums names scalar_only =
     (if (nums = [] \<and> names = []) \<or> (\<exists>n\<in>set nums. n < 0) \<or> \<not> distinct nums
      then Inl InvalidArgumentError
      else Inr \<lparr>argnums = sort nums, argnames = names, scalar_func_only = scalar_only\<rparr>)"
proof (cases "nums = []")
  case True
  then show ?thesis by (simp add: py_value_and_grad_def)
next
  case False
  then show ?thesis by (simp add: py_value_and_grad_def sanitize_argnums_eq)
qed

lemma check_argnames_eq:
  "check_argnames names kwargs =
     (if \<exists>k\<in>set names. \<not> contains kwargs k then Inl InvalidArgumentError else Inr ())"
  by (induction names) auto

lemma sorted_le_last: "sorted xs \<Longrightarrow> n \<in> set xs \<Longrightarrow> (n::int) \<le> last xs"
proof (induction xs)
  case Nil
  then show ?case by simp
next
  case (Cons x xs)
  show ?case
  proof (cases "xs = []")
    case True
    then show ?thesis using Cons.prems by simp
  next
    case False
    then have "last xs \<in> set xs" by simp
    then have "x \<le> last xs" using Cons.prems(1) by auto
    then show ?thesis using Cons False by auto
  qed
qed

lemma last_sort_ge:
  assumes "nums \<noteq> []"
  shows "(k \<le> last (sort nums)) = (\<exists>n\<in>set nums. (k::int) \<le> n)"
proof -
  have ne: "sort nums \<noteq> []" using assms by (metis length_sort length_0_conv)
  have st: "set (sort nums) = set nums" by simp
  have m: "\<And>n. n \<in> set (sort nums) \<Longrightarrow> n \<le> last (sort nums)"
    by (rule sorted_le_last) simp_all
  show ?thesis
  proof
    assume "k \<le> last (sort nums)"
    moreover have "last (sort nums) \<in> set nums" using last_in_set [OF ne] by simp
    ultimately show "\<exists>n\<in>set nums. k \<le> n" by blast
  next
    assume "\<exists>n\<in>set nums. k \<le> n"
    then obtain n where "n \<in> set nums" "k \<le> n" by blast
    then show "k \<le> last (sort nums)" using m [of n] by simp
  qed
qed


lemma sanitize_input_eq:
  assumes "nums \<noteq> [] \<longrightarrow> (\<forall>n\<in>set nums. 0 \<le> n \<and> n < 2 ^ 31)"
  shows "sanitize_input \<lparr>argnums = sort nums, argnames = names, scalar_func_only = b\<rparr> args kwargs =
     (if (\<exists>n\<in>set nums. int (length args) \<le> n) \<or> (\<exists>k\<in>set names. \<not> contains kwargs k)
      then Inl InvalidArgumentError else Inr ())"
proof (cases "nums = []")
  case True
  then show ?thesis by (simp add: sanitize_input_def check_argnames_eq)
next
  case False
  have ne: "sort nums \<noteq> []" using False by (metis length_sort length_0_conv)
  have "last (sort nums) \<in> set nums" using last_in_set [OF ne] by simp
  then have r: "0 \<le> last (sort nums)" "last (sort nums) < 2 ^ 31" using assms False by auto
  then have "last (sort nums) mod 2 ^ 64 = last (sort nums)" by simp
  then have "to_size_t (last (sort nums)) = nat (last (sort nums))" by (simp add: to_size_t_def)
  then have "(length args \<le> to_size_t (last (sort nums))) = (int (length args) \<le> last (sort nums))"
    using r(1) by linarith
  also have "\<dots> = (\<exists>n\<in>set nums. int (length args) \<le> n)" by (rule last_sort_ge [OF False])
  finally show ?thesis using ne by (simp add: sanitize_input_def check_argnames_eq)
qed

text \<open>
  Claim C6, as amended.  With the selected indices in the range of a C++ \<^verbatim>\<open>int\<close>:
  wrapping fails, with \<open>InvalidArgumentError\<close>, exactly when the selection is empty, or
  some index is negative, or some index occurs twice, and otherwise it keeps the sorted
  indices; and a call of the wrapper is rejected by the checks on the selection, with
  \<open>InvalidArgumentError\<close>, exactly when some selected index is greater than or equal to
  the number of positional arguments supplied, or some selected name is not among the
  keyword arguments supplied.
\<close>

theorem C6_selection_errors:
  assumes "\<forall>n\<in>set nums. n < 2 ^ 31"
  shows "py_value_and_grad nums names scalar_only =
           (if (nums = [] \<and> names = []) \<or> (\<exists>n\<in>set nums. n < 0) \<or> \<not> distinct nums
            then Inl InvalidArgumentError
            else Inr \<lparr>argnums = sort nums, argnames = names, scalar_func_only = scalar_only\<rparr>)
         \<and> (\<forall>w. py_value_and_grad nums names scalar_only = Inr w \<longrightarrow>
               sanitize_input w args kwargs =
                 (if (\<exists>n\<in>set nums. int (length args) \<le> n)
                      \<or> (\<exists>k\<in>set names. \<not> contains kwargs k)
                  then Inl InvalidArgumentError else Inr ()))"
proof (intro conjI allI impI)
  show "py_value_and_grad nums names scalar_only =
           (if (nums = [] \<and> names = []) \<or> (\<exists>n\<in>set nums. n < 0) \<or> \<not> distinct nums
            then Inl InvalidArgumentError
            else Inr \<lparr>argnums = sort nums, argnames = names, scalar_func_only = scalar_only\<rparr>)"
    by (rule py_value_and_grad_eq)
next
  fix w
  assume ok: "py_value_and_grad nums names scalar_only = Inr w"
  then have w: "w = \<lparr>argnums = sort nums, argnames = names, scalar_func_only = scalar_only\<rparr>"
    and nn: "\<not> (\<exists>n\<in>set nums. n < 0)"
    by (auto simp: py_value_and_grad_eq split: if_splits)
  have "nums \<noteq> [] \<longrightarrow> (\<forall>n\<in>set nums. 0 \<le> n \<and> n < 2 ^ 31)"
    using nn assms by auto
  then show "sanitize_input w args kwargs =
                 (if (\<exists>n\<in>set nums. int (length args) \<le> n)
                      \<or> (\<exists>k\<in>set names. \<not> contains kwargs k)
                  then Inl InvalidArgumentError else Inr ())"
    unfolding w by (rule sanitize_input_eq)
qed

text \<open>
  The selection \<open>[2, 0]\<close> with the name \<open>k\<close>: resolved as it is, accepted and sorted at
  wrap time, accepted
  at a call with three positional arguments and the keyword \<open>k\<close>, rejected at a call
  with two positional arguments, and rejected at a call without the keyword \<open>k\<close>.
\<close>

theorem C6_witness:
  "validate_argnums_argnames (Some (AVec [2, 0])) (AStr ''k'') = ([2, 0], [''k''])
   \<and> py_value_and_grad [2, 0] [''k''] False
     = Inr \<lparr>argnums = [0, 2], argnames = [''k''], scalar_func_only = False\<rparr>
   \<and> sanitize_input \<lparr>argnums = [0, 2], argnames = [''k''], scalar_func_only = False\<rparr>
        [PyNone, PyNone, PyNone] [(''k'', PyNone)] = Inr ()
   \<and> sanitize_input \<lparr>argnums = [0, 2], argnames = [''k''], scalar_func_only = False\<rparr>
        [PyNone, PyNone] [(''k'', PyNone)] = Inl InvalidArgumentError
   \<and> sanitize_input \<lparr>argnums = [0, 2], argnames = [''k''], scalar_func_only = False\<rparr>
        [PyNone, PyNone, PyNone] [(''j'', PyNone)] = Inl InvalidArgumentError"
  using C6_selection_errors [of "[2, 0]" "[''k'']" False "[PyNone, PyNone, PyNone]" "[(''k'', PyNone)]"]
    C6_selection_errors [of "[2, 0]" "[''k'']" False "[PyNone, PyNone]" "[(''k'', PyNone)]"]
    C6_selection_errors [of "[2, 0]" "[''k'']" False "[PyNone, PyNone, PyNone]" "[(''j'', PyNone)]"]
  by (simp add: contains_def validate_argnums_argnames_def)

text \<open>
  The claim as stated fails at its boundary: with one positional argument supplied, the
  selected index \<open>1\<close> does not exceed the number of arguments, and the call is rejected.
\<close>

theorem C6_counterexample:
  "py_value_and_grad [1] [] False = Inr \<lparr>argnums = [1], argnames = [], scalar_func_only = False\<rparr>
   \<and> sanitize_input \<lparr>argnums = [1], argnames = [], scalar_func_only = False\<rparr>
        [PyArr (Array 0 [])] [] = Inl InvalidArgumentError
   \<and> \<not> claimed_call_rejection [1] [] [PyArr (Array 0 [])] []"
  by (simp add: py_value_and_grad_def sanitize_input_def to_size_t_def claimed_call_rejection_def
      Let_def)

section \<open>Properties of the gradient transform driver\<close>

lemma validate_return_eq:
  "validate_return scalar_only v =
     (if return_contract scalar_only v then Inr () else Inl ReturnContractError)"
  by (cases "tuple_items v") (auto simp: validate_return_def return_contract_def Let_def)

lemma split_bundle_eq:
  "split_bundle t = Inr (as, ks) \<longleftrightarrow> t = PyList [PyTuple as, PyDict ks]"
  unfolding split_bundle_def
  by (simp split: pyobj.splits list.splits)

lemma value_and_grad_call_stages:
  assumes "value_and_grad_call prim f w args kwargs = Inr r"
  obtains c tr v gradients args_left kwargs_left where
    "sanitize_input w args kwargs = Inr ()"
    "collect_arrays w args kwargs = Inr c"
    "inner_fun f (scalar_func_only w) (arrays c) args kwargs (trace_inputs prim (arrays c)) = Inr tr"
    "finish prim (flat_outputs tr) (gradient_indices c) (arrays c) = Inr (v, gradients)"
    "restored tr = PyList [PyTuple args_left, PyDict kwargs_left]"
    "py_grads w args_left kwargs_left gradients (counts c) = Inr (grads r)"
    "tree_unflatten (py_value_out tr) v 0 = Inr (return_value r)"
    "args_after r = restored tr"
  using assms unfolding value_and_grad_call_def
  by (auto split: sum.splits prod.splits simp: split_bundle_eq)

lemma inner_fun_stages:
  assumes "inner_fun f scalar_only originals args kwargs a = Inr tr"
  obtains out where
    "traced_call f args kwargs a = Inr out"
    "restore_originals a originals (tree_after out) = Inr (restored tr)"
    "validate_return scalar_only (returned out) = Inr ()"
    "tree_flatten (returned out) False = Inr (flat_outputs tr)"
    "py_value_out tr = returned out"
  using assms unfolding inner_fun_def
  by (auto split: sum.splits)

text \<open>The definitions a whole call of the wrapper is computed with.\<close>

lemmas grad_eval = value_and_grad_call_def split_bundle_def py_value_and_grad_def
  sanitize_input_def
  collect_arrays_def inner_fun_def traced_call_def tree_fill_def tree_unflatten_def
  star_call_def restore_originals_def replace_tracer_def at_def validate_return_def
  py_grads_def positional_grads_def add_arrays_def add_gradient_def is_array_def is_tuple_def
  tuple_items_def to_size_t_def contains_def dict_set_def tracing_engine_def first_leaf_def
  Let_def

text \<open>
  Claim C7.  The check on the value the callable returned accepts it exactly when it
  meets the contract, and otherwise fails with \<open>ReturnContractError\<close>: in scalar-only mode
  (\<^verbatim>\<open>grad\<close>) everything but a single tensor fails; in the other mode (\<^verbatim>\<open>value_and_grad\<close>)
  everything fails but a single tensor and a non-empty tuple whose first element is a
  tensor, so an empty sequence, a value that is neither a sequence nor a tensor, and a
  sequence whose first element is not a tensor all fail (and so does a Python list).
  Hence a call of the wrapper that succeeds is one whose callable returned, on the
  traced arguments, a value that meets the contract.
\<close>

theorem C7_return_contract:
  "validate_return scalar_only v =
     (if return_contract scalar_only v then Inr () else Inl ReturnContractError)
   \<and> (value_and_grad_call prim f w args kwargs = Inr r \<longrightarrow>
        (\<exists>c out. collect_arrays w args kwargs = Inr c
           \<and> traced_call f args kwargs (trace_inputs prim (arrays c)) = Inr out
           \<and> return_contract (scalar_func_only w) (returned out)))"
proof (intro conjI impI)
  show "validate_return scalar_only v =
     (if return_contract scalar_only v then Inr () else Inl ReturnContractError)"
    by (rule validate_return_eq)
next
  assume "value_and_grad_call prim f w args kwargs = Inr r"
  then obtain c tr where c: "collect_arrays w args kwargs = Inr c"
    and tr: "inner_fun f (scalar_func_only w) (arrays c) args kwargs (trace_inputs prim (arrays c)) = Inr tr"
    by (rule value_and_grad_call_stages)
  from tr obtain out where
    o: "traced_call f args kwargs (trace_inputs prim (arrays c)) = Inr out"
    and v: "validate_return (scalar_func_only w) (returned out) = Inr ()"
    by (rule inner_fun_stages)
  from v have "return_contract (scalar_func_only w) (returned out)"
    by (simp add: validate_return_eq split: if_splits)
  with c o show "\<exists>c out. collect_arrays w args kwargs = Inr c
           \<and> traced_call f args kwargs (trace_inputs prim (arrays c)) = Inr out
           \<and> return_contract (scalar_func_only w) (returned out)"
    by blast
qed

text \<open>
  The values the claim names, in both modes; and three calls of a \<^verbatim>\<open>grad\<close> wrapper around
  \<^verbatim>\<open>first_arg\<close>: one whose callable returns an integer and fails the contract, one whose
  callable returns a list, and one that succeeds.
\<close>

theorem C7_witness:
  "validate_return True (PyTuple [PyInt 1, PyArr (Array 0 [])]) = Inl ReturnContractError
   \<and> validate_return False (PyTuple [PyInt 1, PyArr (Array 0 [])]) = Inl ReturnContractError
   \<and> validate_return False (PyTuple []) = Inl ReturnContractError
   \<and> validate_return False (PyInt 1) = Inl ReturnContractError
   \<and> validate_return False (PyList [PyArr (Array 0 [])]) = Inl ReturnContractError
   \<and> validate_return False (PyTuple [PyArr (Array 0 []), PyInt 1]) = Inr ()
   \<and> validate_return True (PyTuple [PyArr (Array 0 []), PyInt 1]) = Inl ReturnContractError
   \<and> validate_return True (PyArr (Array 0 [])) = Inr ()
   \<and> value_and_grad_call tracing_engine first_arg
        \<lparr>argnums = [1], argnames = [], scalar_func_only = True\<rparr>
        [PyInt 3, PyArr (Array 0 [])] [] = Inl ReturnContractError
   \<and> value_and_grad_call tracing_engine first_arg
        \<lparr>argnums = [1], argnames = [], scalar_func_only = False\<rparr>
        [PyList [PyArr (Array 1 [])], PyArr (Array 0 [])] [] = Inl ReturnContractError
   \<and> value_and_grad_call tracing_engine first_arg
        \<lparr>argnums = [0], argnames = [], scalar_func_only = True\<rparr>
        [PyArr (Array 0 []), PyInt 3] []
      = Inr \<lparr>return_value = PyArr (Array 100 []), grads = PyArr (Array 200 []),
             args_after = PyList [PyTuple [PyArr (Array 0 []), PyInt 3], PyDict []]\<rparr>"
  using C7_return_contract [of True "PyTuple [PyInt 1, PyArr (Array 0 [])]" tracing_engine
      first_arg "\<lparr>argnums = [0], argnames = [], scalar_func_only = True\<rparr>"
      "[PyArr (Array 0 []), PyInt 3]" "[]"
      "\<lparr>return_value = PyArr (Array 100 []), grads = PyArr (Array 200 []),
             args_after = PyList [PyTuple [PyArr (Array 0 []), PyInt 3], PyDict []]\<rparr>"]
  by (simp add: grad_eval first_arg_def return_contract_def)

lemma unflatten_advance:
  fixes t :: "'b pyobj" and ts :: "'b pyobj list" and kvs :: "(string \<times> 'b pyobj) list"
  shows "tree_flatten t strict = Inr xs \<Longrightarrow> unflatten_from t vs i = Inr (u, j)
           \<Longrightarrow> j = i + length xs"
    and "flatten_seq ts strict = Inr xs \<Longrightarrow> unflatten_seq ts vs i = Inr (us, j)
           \<Longrightarrow> j = i + length xs"
    and "flatten_items kvs strict = Inr xs \<Longrightarrow> unflatten_items kvs vs i = Inr (kus, j)
           \<Longrightarrow> j = i + length xs"
proof (induction t strict and ts strict and kvs strict
    arbitrary: xs i u j and xs i us j and xs i kus j
    rule: tree_flatten_flatten_seq_flatten_items.induct)
  case (7 t ts strict)
  from "7.prems"(1) obtain ys zs where
    y: "tree_flatten t strict = Inr ys" and z: "flatten_seq ts strict = Inr zs"
    and xs: "xs = ys @ zs"
    by (auto split: sum.splits)
  from "7.prems"(2) obtain u' j' us' where
    u: "unflatten_from t vs i = Inr (u', j')" and r: "unflatten_seq ts vs j' = Inr (us', j)"
    by (auto split: sum.splits prod.splits)
  from "7.IH"(1) [OF y u] "7.IH"(2) [OF y z r] show ?case using xs by simp
next
  case (9 k t kvs strict)
  from "9.prems"(1) obtain ys zs where
    y: "tree_flatten t strict = Inr ys" and z: "flatten_items kvs strict = Inr zs"
    and xs: "xs = ys @ zs"
    by (auto split: sum.splits)
  from "9.prems"(2) obtain u' j' us' where
    u: "unflatten_from t vs i = Inr (u', j')" and r: "unflatten_items kvs vs j' = Inr (us', j)"
    by (auto split: sum.splits prod.splits)
  from "9.IH"(1) [OF y u] "9.IH"(2) [OF y z r] show ?case using xs by simp
qed (auto split: sum.splits prod.splits if_splits)

lemma restore_untouched_gen:
  fixes t :: tree and ts :: "tree list" and kvs :: "(string \<times> tree) list"
  shows "tree_flatten t strict = Inr xs \<Longrightarrow> length a = length originals
           \<Longrightarrow> originals = pre @ xs @ post \<Longrightarrow> unflatten_from t a (length pre) = Inr (u, j)
           \<Longrightarrow> tree_visit_update (replace_tracer a originals) u (length pre)
                 = Inr (t, length pre + length xs)"
    and "flatten_seq ts strict = Inr xs \<Longrightarrow> length a = length originals
           \<Longrightarrow> originals = pre @ xs @ post \<Longrightarrow> unflatten_seq ts a (length pre) = Inr (us, j)
           \<Longrightarrow> visit_update_seq (replace_tracer a originals) us (length pre)
                 = Inr (ts, length pre + length xs)"
    and "flatten_items kvs strict = Inr xs \<Longrightarrow> length a = length originals
           \<Longrightarrow> originals = pre @ xs @ post \<Longrightarrow> unflatten_items kvs a (length pre) = Inr (kus, j)
           \<Longrightarrow> visit_update_items (replace_tracer a originals) kus (length pre)
                 = Inr (kvs, length pre + length xs)"
proof (induction t strict and ts strict and kvs strict
    arbitrary: xs pre post u j and xs pre post us j and xs pre post kus j
    rule: tree_flatten_flatten_seq_flatten_items.induct)
  case (1 x strict)
  then show ?case
    by (auto simp: replace_tracer_def at_def nth_append split: if_splits)
next
  case (7 t ts strict)
  from "7.prems"(1) obtain ys zs where
    y: "tree_flatten t strict = Inr ys" and z: "flatten_seq ts strict = Inr zs"
    and xs: "xs = ys @ zs"
    by (auto split: sum.splits)
  from "7.prems"(4) obtain u' j' us' where
    u: "unflatten_from t a (length pre) = Inr (u', j')"
    and r: "unflatten_seq ts a j' = Inr (us', j)" and us: "us = u' # us'"
    by (auto split: sum.splits prod.splits)
  have o1: "originals = pre @ ys @ (zs @ post)" using "7.prems"(3) xs by simp
  have a1: "tree_visit_update (replace_tracer a originals) u' (length pre)
              = Inr (t, length pre + length ys)"
    by (rule "7.IH"(1) [OF y "7.prems"(2) o1 u])
  have j': "j' = length (pre @ ys)" using unflatten_advance(1) [OF y u] by simp
  have o2: "originals = (pre @ ys) @ zs @ post" using o1 by simp
  have a2: "visit_update_seq (replace_tracer a originals) us' (length (pre @ ys))
              = Inr (ts, length (pre @ ys) + length zs)"
    by (rule "7.IH"(2) [OF y z "7.prems"(2) o2 r [unfolded j']])
  show ?case using a1 a2 us xs by simp
next
  case (9 k t kvs strict)
  from "9.prems"(1) obtain ys zs where
    y: "tree_flatten t strict = Inr ys" and z: "flatten_items kvs strict = Inr zs"
    and xs: "xs = ys @ zs"
    by (auto split: sum.splits)
  from "9.prems"(4) obtain u' j' us' where
    u: "unflatten_from t a (length pre) = Inr (u', j')"
    and r: "unflatten_items kvs a j' = Inr (us', j)" and us: "kus = (k, u') # us'"
    by (auto split: sum.splits prod.splits)
  have o1: "originals = pre @ ys @ (zs @ post)" using "9.prems"(3) xs by simp
  have a1: "tree_visit_update (replace_tracer a originals) u' (length pre)
              = Inr (t, length pre + length ys)"
    by (rule "9.IH"(1) [OF y "9.prems"(2) o1 u])
  have j': "j' = length (pre @ ys)" using unflatten_advance(1) [OF y u] by simp
  have o2: "originals = (pre @ ys) @ zs @ post" using o1 by simp
  have a2: "visit_update_items (replace_tracer a originals) us' (length (pre @ ys))
              = Inr (kvs, length (pre @ ys) + length zs)"
    by (rule "9.IH"(2) [OF y z "9.prems"(2) o2 r [unfolded j']])
  show ?case using a1 a2 us xs by simp
qed (auto split: sum.splits prod.splits if_splits)

text \<open>
  When the call wrote nothing into its arguments, the tree the closure finds after it is
  the tree filled with the tracers, and every leaf gets its original tensor back.
\<close>

lemma restore_untouched:
  assumes "tree_flatten t False = Inr originals" and "length a = length originals"
    and "tree_fill t a = Inr filled"
  shows "restore_originals a originals filled = Inr t"
proof -
  from assms(3) obtain j where u: "unflatten_from t a (length ([] :: array list)) = Inr (filled, j)"
    by (cases "unflatten_from t a 0") (auto simp: tree_fill_def tree_unflatten_def)
  have "originals = [] @ originals @ []" by simp
  from restore_untouched_gen(1) [OF assms(1) assms(2) this u]
  show ?thesis by (simp add: restore_originals_def)
qed

text \<open>
  Claim C4 fails on the code.  The counter of the visitor moves on only when the leaf
  is the tracer \<^verbatim>\<open>a[index]\<close>, so after a leaf that the call overwrote every later leaf is
  compared with the wrong tracer.  With the tracers \<open>100\<close>, \<open>101\<close> standing for the tensors
  \<open>0\<close>, \<open>1\<close> and a call that wrote the tensor \<open>50\<close> over the first leaf: the code leaves the
  tracer \<open>101\<close> in the second leaf, where the claim has the original tensor \<open>1\<close>; and this
  is what a call of the wrapper around \<^verbatim>\<open>overwrite_first\<close> leaves in the caller's list.
\<close>

theorem C4_tracer_left_behind:
  "restore_originals [Array 100 [], Array 101 []] [Array 0 [], Array 1 []]
      (PyList [PyTuple [PyList [PyArr (Array 50 []), PyArr (Array 101 [])]], PyDict []])
     = Inr (PyList [PyTuple [PyList [PyArr (Array 50 []), PyArr (Array 101 [])]], PyDict []])
   \<and> claimed_restore [Array 100 [], Array 101 []] [Array 0 [], Array 1 []]
      (PyList [PyTuple [PyList [PyArr (Array 50 []), PyArr (Array 101 [])]], PyDict []])
     = Inr (PyList [PyTuple [PyList [PyArr (Array 50 []), PyArr (Array 1 [])]], PyDict []])
   \<and> map_sum id args_after
       (value_and_grad_call tracing_engine overwrite_first
          \<lparr>argnums = [0], argnames = [], scalar_func_only = True\<rparr>
          [PyList [PyArr (Array 0 []), PyArr (Array 1 [])]] [])
     = Inr (PyList [PyTuple [PyList [PyArr (Array 50 []), PyArr (Array 101 [])]], PyDict []])"
  by (simp add: grad_eval claimed_restore_def claimed_visitor_def overwrite_first_def)






























section \<open>Properties of the compilation cache driver\<close>

text \<open>The definitions a call of a compiled wrapper is computed with.\<close>

lemmas compile_eval = PyCompiledFun_call_impl_def compile_def compile_fun_def push_back_def
  tree_unflatten_def star_call_def tree_flatten_with_structure_def umap_at_def umap_insert_def
  tree_unflatten_from_structure_def array_identifier_def list_identifier_def
  dict_identifier_def constant_hash_def empty_runtime_def pair_if_def Let_def

text \<open>
  Once the structure cache has an entry for the callable, no call of the wrapper
  changes it, whether the call traces or not.
\<close>

lemma umap_insert_kept: "m k = Some v \<Longrightarrow> umap_insert k v' m = m"
  by (simp add: umap_insert_def)

lemma compile_fun_keeps_structure:
  assumes "tree_cache rt (fun_id w) = Some s"
    and "compile_fun w args kwargs n a rt = Inr (outs, rt')"
  shows "tree_cache rt' (fun_id w) = Some s"
  using assms
  by (auto simp: compile_fun_def umap_insert_kept split: sum.splits prod.splits)

lemma first_structure_is_kept:
  assumes "tree_cache rt (fun_id w) = Some s"
    and "PyCompiledFun_call_impl h w args kwargs rt = Inr (r, rt')"
  shows "tree_cache rt' (fun_id w) = Some s"
  using assms
  by (auto simp: PyCompiledFun_call_impl_def compile_def Let_def
      split: sum.splits prod.splits option.splits dest: compile_fun_keeps_structure)

text \<open>
  Claim C2 fails on the code.  The callback records the structure with
  \<^verbatim>\<open>tree_cache().insert\<close>, which leaves an entry that is already there as it is.  Two calls
  of one wrapper around \<^verbatim>\<open>pair_if\<close>: the first, with the constant \<open>0\<close>, traces and records
  the structure of a single tensor; the second, with the constant \<open>1\<close>, has another
  signature and traces again, the callable returns a pair, and the recorded structure
  stays that of a single tensor: the wrapper returns one tensor where the callable
  returned a pair of two.
\<close>

theorem C2_stale_structure:
  "map_sum id (\<lambda>(results, rt). (results, tree_cache rt 7))
     (call_sequence constant_hash \<lparr>compiled_fun = pair_if, fun_id = 7, shapeless = False\<rparr>
        [([PyArr (Array 1 []), PyInt 0], []), ([PyArr (Array 1 []), PyInt 1], [])] empty_runtime)
     = Inr ([PyArr (Array 1 []), PyArr (Array 1 [])], Some (PyArr ()))
   \<and> map_sum id returned (pair_if [PyArr (Array 1 []), PyInt 1] [])
     = Inr (PyTuple [PyArr (Array 1 []), PyArr (Array 1 [])])
   \<and> tree_flatten_with_structure (PyTuple [PyArr (Array 1 []), PyArr (Array 1 [])]) False
     = Inr ([Array 1 [], Array 1 []], PyTuple [PyArr (), PyArr ()])"
  by (simp add: compile_eval)

text \<open>
  The token list has neither the size of a container nor a mark where it ends, so
  \<^verbatim>\<open>f([[a], b])\<close> and \<^verbatim>\<open>f([[a, b]])\<close> have one signature.  Two such calls of one wrapper
  around \<^verbatim>\<open>first_arg\<close>: the second finds the trace of the first under its signature, the
  callable is not run on its arguments, and the wrapper returns \<^verbatim>\<open>[[a], b]\<close> where the
  callable returns \<^verbatim>\<open>[[a, b]]\<close>.
\<close>

lemma shape_collision_reuses_trace:
  "tokens (compile_signature constant_hash
       [PyList [PyList [PyArr (Array 1 [])], PyArr (Array 2 [])]] [])
     = tokens (compile_signature constant_hash
       [PyList [PyList [PyArr (Array 1 []), PyArr (Array 2 [])]]] [])
   \<and> map_sum id fst
       (call_sequence constant_hash \<lparr>compiled_fun = first_arg, fun_id = 7, shapeless = False\<rparr>
          [([PyList [PyList [PyArr (Array 1 [])], PyArr (Array 2 [])]], []),
           ([PyList [PyList [PyArr (Array 1 []), PyArr (Array 2 [])]]], [])] empty_runtime)
     = Inr [PyList [PyList [PyArr (Array 1 [])], PyArr (Array 2 [])],
            PyList [PyList [PyArr (Array 1 [])], PyArr (Array 2 [])]]
   \<and> map_sum id returned (first_arg [PyList [PyList [PyArr (Array 1 []), PyArr (Array 2 [])]]] [])
     = Inr (PyList [PyList [PyArr (Array 1 []), PyArr (Array 2 [])]])"
  by (simp add: compile_eval sig_eval first_arg_def)

end
